theory Spec2Isabelle
  imports Complex_Main "HOL-Library.Sublist"
begin

section \<open>JavaScript values\<close>

text \<open>
  The program is plain JavaScript (\<^verbatim>\<open>src/check.js\<close>, and an earlier variant of the same
  file, \<^verbatim>\<open>src/unnamed/part_000\<close>). Its records come out of \<^verbatim>\<open>JSON.parse\<close>, so a value is
  one of the JSON shapes, or \<^verbatim>\<open>undefined\<close> for a property that is not there.

  A string is its sequence of UTF-16 code units, each a number below 65536; \<open>str\<close> writes an
  ASCII literal. A number is an IEEE double: a finite one is kept as the rational it is equal
  to (\<open>Fin\<close>; the two zeros are not told apart, nothing below reads the sign of a zero), and
  the three other doubles are constructors of their own.
\<close>

type_synonym jsstring = "nat list"

definition str :: "string \<Rightarrow> jsstring" where
  "str s = map of_char s"

datatype jsnum = Fin rat | PosInf | NegInf | NaN

datatype jsval =
    JUndefined
  | JNull
  | JBool bool
  | JNum jsnum
  | JStr jsstring
  | JArr "jsval list"
  | JObj "(jsstring \<times> jsval) list"

datatype error = TypeError

text \<open>\<^verbatim>\<open>Number.isFinite(n)\<close> on a number.\<close>

fun isFinite :: "jsnum \<Rightarrow> bool" where
  "isFinite (Fin q) = True"
| "isFinite PosInf = False"
| "isFinite NegInf = False"
| "isFinite NaN = False"

text \<open>\<^verbatim>\<open>a < b\<close> on two numbers: false as soon as one of them is NaN.\<close>

fun num_less :: "jsnum \<Rightarrow> jsnum \<Rightarrow> bool" where
  "num_less NaN b = False"
| "num_less a NaN = False"
| "num_less (Fin a) (Fin b) = (a < b)"
| "num_less (Fin a) PosInf = True"
| "num_less (Fin a) NegInf = False"
| "num_less PosInf b = False"
| "num_less NegInf (Fin b) = True"
| "num_less NegInf PosInf = True"
| "num_less NegInf NegInf = False"

text \<open>Truthiness, as \<^verbatim>\<open>||\<close>, \<^verbatim>\<open>?:\<close> and \<^verbatim>\<open>if\<close> read it.\<close>

fun truthy_num :: "jsnum \<Rightarrow> bool" where
  "truthy_num (Fin q) = (q \<noteq> 0)"
| "truthy_num PosInf = True"
| "truthy_num NegInf = True"
| "truthy_num NaN = False"

fun truthy :: "jsval \<Rightarrow> bool" where
  "truthy JUndefined = False"
| "truthy JNull = False"
| "truthy (JBool b) = b"
| "truthy (JNum n) = truthy_num n"
| "truthy (JStr s) = (s \<noteq> [])"
| "truthy (JArr xs) = True"
| "truthy (JObj kvs) = True"

text \<open>\<^verbatim>\<open>a || b\<close> and \<^verbatim>\<open>a ?? b\<close>.\<close>

definition js_or :: "jsval \<Rightarrow> jsval \<Rightarrow> jsval" where
  "js_or a b = (if truthy a then a else b)"

fun nullish :: "jsval \<Rightarrow> bool" where
  "nullish JUndefined = True"
| "nullish JNull = True"
| "nullish v = False"

definition js_coalesce :: "jsval \<Rightarrow> jsval \<Rightarrow> jsval" where
  "js_coalesce a b = (if nullish a then b else a)"

text \<open>
  \<^verbatim>\<open>item?.[k]\<close>: the property \<open>k\<close> of an object, \<^verbatim>\<open>undefined\<close> when it has none. On
  \<^verbatim>\<open>null\<close> and \<^verbatim>\<open>undefined\<close> the optional chain gives \<^verbatim>\<open>undefined\<close>; on a string, a
  number, a boolean or an array the lookup goes to the prototype, which has none of the keys
  the program asks for (they are listed below), so it gives \<^verbatim>\<open>undefined\<close> as well. The
  one place that reads \<^verbatim>\<open>o[k]\<close> without the chain, \<open>pick\<close>, does so only on a truthy \<open>o\<close>.
\<close>

fun getProp :: "jsval \<Rightarrow> jsstring \<Rightarrow> jsval" where
  "getProp (JObj kvs) k = (case map_of kvs k of Some v \<Rightarrow> v | None \<Rightarrow> JUndefined)"
| "getProp v k = JUndefined"

section \<open>Regular expressions\<close>

text \<open>
  The five patterns of the program use literals, character classes, sequence, alternation,
  \<^verbatim>\<open>?\<close>, \<^verbatim>\<open>*\<close>, \<^verbatim>\<open>^\<close> and \<^verbatim>\<open>\b\<close>. A class is a list of inclusive code-unit ranges.
  A matcher state is the code unit before the position (\<open>None\<close> at the start of the input)
  and the input that is left; \<open>rx_ends r st\<close> lists the states in which a match of \<open>r\<close>
  begun at \<open>st\<close> can end.
\<close>

datatype rx =
    Lit jsstring
  | Cls "(nat \<times> nat) list"
  | Seq rx rx
  | Alt rx rx
  | Opt rx
  | Star rx
  | Bol
  | Wb

type_synonym rx_state = "nat option \<times> jsstring"

definition in_ranges :: "(nat \<times> nat) list \<Rightarrow> nat \<Rightarrow> bool" where
  "in_ranges rs c = list_ex (\<lambda>(lo, hi). lo \<le> c \<and> c \<le> hi) rs"

text \<open>\<^verbatim>\<open>\d\<close>, \<^verbatim>\<open>\w\<close> and \<^verbatim>\<open>\s\<close> (white space and line terminators) without the unicode flag.\<close>

definition digit_ranges :: "(nat \<times> nat) list" where
  "digit_ranges = [(48, 57)]"

definition word_ranges :: "(nat \<times> nat) list" where
  "word_ranges = [(97, 122), (65, 90), (48, 57), (95, 95)]"

definition space_ranges :: "(nat \<times> nat) list" where
  "space_ranges =
     [(9, 13), (32, 32), (160, 160), (5760, 5760), (8192, 8202), (8232, 8233),
      (8239, 8239), (8287, 8287), (12288, 12288), (65279, 65279)]"

definition is_word_before :: "nat option \<Rightarrow> bool" where
  "is_word_before p = (case p of None \<Rightarrow> False | Some c \<Rightarrow> in_ranges word_ranges c)"

definition is_word_after :: "jsstring \<Rightarrow> bool" where
  "is_word_after s = (case s of [] \<Rightarrow> False | c # t \<Rightarrow> in_ranges word_ranges c)"

text \<open>
  \<^verbatim>\<open>r*\<close>: any number of rounds of \<open>r\<close>, each consuming input (a round that consumes nothing
  adds no end state), so the length of the input bounds the number of rounds.
\<close>

fun rx_star :: "nat \<Rightarrow> (rx_state \<Rightarrow> rx_state list) \<Rightarrow> rx_state \<Rightarrow> rx_state list" where
  "rx_star 0 f st = [st]"
| "rx_star (Suc n) f st =
     st # concat (map (rx_star n f) (filter (\<lambda>st'. length (snd st') < length (snd st)) (f st)))"

fun rx_ends :: "rx \<Rightarrow> rx_state \<Rightarrow> rx_state list" where
  "rx_ends (Lit w) (p, s) =
     (if w = [] then [(p, s)]
      else if prefix w s then [(Some (last w), drop (length w) s)] else [])"
| "rx_ends (Cls rs) (p, s) =
     (case s of [] \<Rightarrow> [] | c # t \<Rightarrow> if in_ranges rs c then [(Some c, t)] else [])"
| "rx_ends (Seq a b) st = concat (map (rx_ends b) (rx_ends a st))"
| "rx_ends (Alt a b) st = rx_ends a st @ rx_ends b st"
| "rx_ends (Opt a) st = rx_ends a st @ [st]"
| "rx_ends (Star a) st = rx_star (length (snd st)) (rx_ends a) st"
| "rx_ends Bol (p, s) = (if p = None then [(p, s)] else [])"
| "rx_ends Wb (p, s) = (if is_word_before p \<noteq> is_word_after s then [(p, s)] else [])"

text \<open>\<^verbatim>\<open>r.test(s)\<close>: a match may begin at any position of \<open>s\<close>, the end included.\<close>

fun rx_search :: "rx \<Rightarrow> nat option \<Rightarrow> jsstring \<Rightarrow> bool" where
  "rx_search r p [] = (rx_ends r (p, []) \<noteq> [])"
| "rx_search r p (c # t) = (rx_ends r (p, c # t) \<noteq> [] \<or> rx_search r (Some c) t)"

definition rx_test :: "rx \<Rightarrow> jsstring \<Rightarrow> bool" where
  "rx_test r s = rx_search r None s"

section \<open>Numbers out of text\<close>

text \<open>
  \<^verbatim>\<open>parseFloat\<close> returns the double nearest to the decimal it reads, ties to the even
  significand (as V8 does for any number of digits). \<open>toDouble\<close> is that rounding for a
  rational that is not negative: 53 bits of significand, exponents from \<open>-1022\<close> (below it
  the spacing stays \<open>2\<^sup>-\<^sup>1\<^sup>0\<^sup>7\<^sup>4\<close>, the subnormal doubles), and infinity when the rounded
  value reaches \<open>2\<^sup>1\<^sup>0\<^sup>2\<^sup>4\<close>.
\<close>

fun bitlen :: "int \<Rightarrow> nat" where
  "bitlen n = (if n \<le> 0 then 0 else Suc (bitlen (n div 2)))"

declare bitlen.simps [simp del]

definition pow2 :: "int \<Rightarrow> rat" where
  "pow2 k = (if 0 \<le> k then 2 ^ nat k else 1 / 2 ^ nat (- k))"

text \<open>\<open>ilog2 q\<close> is the \<open>e\<close> with \<open>2\<^sup>e \<le> q < 2\<^sup>e\<^sup>+\<^sup>1\<close>, for \<open>0 < q\<close>.\<close>

definition ilog2 :: "rat \<Rightarrow> int" where
  "ilog2 q = (if 1 \<le> q then int (bitlen \<lfloor>q\<rfloor>) - 1 else - int (bitlen (\<lceil>1 / q\<rceil> - 1)))"

definition roundHalfEven :: "rat \<Rightarrow> int" where
  "roundHalfEven m =
     (let f = \<lfloor>m\<rfloor>; r = m - of_int f
      in if r < 1 / 2 then f else if 1 / 2 < r then f + 1 else if even f then f else f + 1)"

definition toDouble :: "rat \<Rightarrow> jsnum" where
  "toDouble q =
     (if q \<le> 0 then Fin 0
      else let e = max (ilog2 q) (- 1022);
               ulp = pow2 (e - 52);
               v = of_int (roundHalfEven (q / ulp)) * ulp
           in if pow2 1024 \<le> v then PosInf else Fin v)"

definition isDigit :: "nat \<Rightarrow> bool" where
  "isDigit c = in_ranges digit_ranges c"

definition digitsValue :: "jsstring \<Rightarrow> int" where
  "digitsValue ds = foldl (\<lambda>a c. 10 * a + (int c - 48)) 0 ds"

text \<open>
  \<^verbatim>\<open>parseFloat(s)\<close> for an \<open>s\<close> of digits and \<^verbatim>\<open>.\<close> only, which is all that \<open>numberFrom\<close>
  gives it: there the longest prefix that is a decimal literal is \<^verbatim>\<open>digits\<close>,
  \<^verbatim>\<open>digits.\<close>, \<^verbatim>\<open>digits.digits\<close> or \<^verbatim>\<open>.digits\<close> (no sign, no exponent, no white space),
  and the result is NaN when there is no such prefix.
\<close>

definition parseFloat :: "jsstring \<Rightarrow> jsnum" where
  "parseFloat s =
     (let ip = takeWhile isDigit s;
          rest = dropWhile isDigit s;
          fp = (case rest of [] \<Rightarrow> [] | c # t \<Rightarrow> if c = 46 then takeWhile isDigit t else [])
      in if ip = [] \<and> fp = [] then NaN
         else toDouble (of_int (digitsValue (ip @ fp)) / 10 ^ length fp))"

text \<open>
  \<^verbatim>\<open>v.replace(/[^\d.]/g, "")\<close>: the pattern matches one code unit at a time, so the global
  replacement by the empty string keeps exactly the code units the class \<^verbatim>\<open>[\d.]\<close> holds.
\<close>

definition stripNonNumeric :: "jsstring \<Rightarrow> jsstring" where
  "stripNonNumeric s = filter (in_ranges (digit_ranges @ [(46, 46)])) s"

text \<open>
  \<open>numberFrom\<close> returns a number or \<^verbatim>\<open>null\<close>: \<open>Some n\<close> or \<open>None\<close>.
  \<^verbatim>\<open>
  function numberFrom(v) {
    if (typeof v === "number") return v;
    if (typeof v === "string") {
      const n = parseFloat(v.replace(/[^\d.]/g, ""));
      return Number.isFinite(n) ? n : null;
    }
    return null;
  }
  \<close>
\<close>

fun numberFrom :: "jsval \<Rightarrow> jsnum option" where
  "numberFrom (JNum n) = Some n"
| "numberFrom (JStr s) =
     (let n = parseFloat (stripNonNumeric s) in if isFinite n then Some n else None)"
| "numberFrom v = None"

text \<open>\<^verbatim>\<open>path.reduce((o, k) => (o ? o[k] : undefined), obj)\<close>\<close>

definition pick :: "jsval \<Rightarrow> jsstring list \<Rightarrow> jsval" where
  "pick obj path = foldl (\<lambda>ob k. if truthy ob then getProp ob k else JUndefined) obj path"

section \<open>Price and range of a record\<close>

definition price_keys :: "jsstring list" where
  "price_keys = [str ''PurchasePrice'', str ''Price'', str ''TotalPrice'', str ''TotalPriceAndFees'']"

text \<open>
  The loop of \<open>extractPrice\<close> over the keys that are left; \<^verbatim>\<open>typeof n === "number"\<close> holds
  exactly when \<open>numberFrom\<close> did not return \<^verbatim>\<open>null\<close>.
\<close>

fun extractPrice_loop :: "jsval \<Rightarrow> jsstring list \<Rightarrow> jsnum option" where
  "extractPrice_loop item [] = None"
| "extractPrice_loop item (k # ks) =
     (case numberFrom (getProp item k) of
        Some n \<Rightarrow> Some n
      | None \<Rightarrow> extractPrice_loop item ks)"

definition extractPrice :: "jsval \<Rightarrow> jsnum option" where
  "extractPrice item = extractPrice_loop item price_keys"

definition range_paths :: "jsstring list list" where
  "range_paths =
     [[str ''Range''],
      [str ''WLTPRange''],
      [str ''BatteryRange''],
      [str ''EUCombinedRange''],
      [str ''Spec'', str ''Range''],
      [str ''Spec'', str ''WLTPRange''],
      [str ''Spec'', str ''EUCombinedRange''],
      [str ''Spec'', str ''wltp_range''],
      [str ''Spec'', str ''range'']]"

fun extractRangeKm_loop :: "jsval \<Rightarrow> jsstring list list \<Rightarrow> jsnum option" where
  "extractRangeKm_loop item [] = None"
| "extractRangeKm_loop item (p # ps) =
     (case numberFrom (pick item p) of
        Some n \<Rightarrow> Some n
      | None \<Rightarrow> extractRangeKm_loop item ps)"

text \<open>
  What the program takes from the platform and this theory leaves open: the Unicode lower
  casing of \<^verbatim>\<open>toLowerCase\<close>, the decimal text of a number, the text of an array or object
  (a \<^verbatim>\<open>TypeError\<close> when the object shadows \<^verbatim>\<open>toString\<close> and \<^verbatim>\<open>valueOf\<close>), and the
  \<^verbatim>\<open>Intl.NumberFormat\<close> currency format (\<open>None\<close> when it throws). Every theorem below holds
  for each choice of them.
\<close>

record runtime =
  toLowerCase :: "jsstring \<Rightarrow> jsstring"
  numberToString :: "jsnum \<Rightarrow> jsstring"
  objectToString :: "jsval \<Rightarrow> error + jsstring"
  intlFormat :: "jsnum \<Rightarrow> jsstring option"

text \<open>The conversion to a string that a template literal and \<^verbatim>\<open>test\<close> apply.\<close>

fun ToString :: "runtime \<Rightarrow> jsval \<Rightarrow> error + jsstring" where
  "ToString rt JUndefined = Inr (str ''undefined'')"
| "ToString rt JNull = Inr (str ''null'')"
| "ToString rt (JBool b) = Inr (if b then str ''true'' else str ''false'')"
| "ToString rt (JNum n) = Inr (numberToString rt n)"
| "ToString rt (JStr s) = Inr s"
| "ToString rt (JArr xs) = objectToString rt (JArr xs)"
| "ToString rt (JObj kvs) = objectToString rt (JObj kvs)"

text \<open>
  The three patterns of the fall-back of \<open>extractRangeKm\<close>:
  \<^verbatim>\<open>/\b(long\s*range|maximale\s*reichweite|lr)\b/\<close>, \<^verbatim>\<open>/performance/\<close> and
  \<^verbatim>\<open>/\b(standard\s*range|rear[-\s]*wheel|heckantrieb)\b/\<close>.
\<close>

definition rx_long_range :: rx where
  "rx_long_range =
     Seq Wb (Seq
       (Alt (Seq (Lit (str ''long'')) (Seq (Star (Cls space_ranges)) (Lit (str ''range''))))
       (Alt (Seq (Lit (str ''maximale'')) (Seq (Star (Cls space_ranges)) (Lit (str ''reichweite''))))
            (Lit (str ''lr''))))
       Wb)"

definition rx_performance :: rx where
  "rx_performance = Lit (str ''performance'')"

definition rx_standard_range :: rx where
  "rx_standard_range =
     Seq Wb (Seq
       (Alt (Seq (Lit (str ''standard'')) (Seq (Star (Cls space_ranges)) (Lit (str ''range''))))
       (Alt (Seq (Lit (str ''rear'')) (Seq (Star (Cls ((45, 45) # space_ranges))) (Lit (str ''wheel''))))
            (Lit (str ''heckantrieb''))))
       Wb)"

text \<open>\<^verbatim>\<open>item?.TrimName || item?.Trim || item?.SpecName || ""\<close>\<close>

definition trimLabel :: "jsval \<Rightarrow> jsval" where
  "trimLabel item =
     js_or (js_or (js_or (getProp item (str ''TrimName'')) (getProp item (str ''Trim'')))
                  (getProp item (str ''SpecName'')))
           (JStr [])"

text \<open>
  \<open>extractRangeKm\<close> of \<^verbatim>\<open>src/check.js\<close>. After the nine paths it calls \<^verbatim>\<open>toLowerCase\<close> on
  the label: a label that is truthy and not a string (a number, \<^verbatim>\<open>true\<close>, an array, an
  object) has no such method, and the call throws a \<^verbatim>\<open>TypeError\<close>.
\<close>

definition extractRangeKm :: "runtime \<Rightarrow> jsval \<Rightarrow> error + jsnum option" where
  "extractRangeKm rt item =
     (case extractRangeKm_loop item range_paths of
        Some n \<Rightarrow> Inr (Some n)
      | None \<Rightarrow>
          (case trimLabel item of
             JStr s \<Rightarrow>
               (let trim = toLowerCase rt s
                in if rx_test rx_long_range trim then Inr (Some (Fin 620))
                   else if rx_test rx_performance trim then Inr (Some (Fin 560))
                   else if rx_test rx_standard_range trim then Inr (Some (Fin 490))
                   else Inr None)
           | v \<Rightarrow> Inl TypeError))"

subsection \<open>The variant \<^verbatim>\<open>src/unnamed/part_000\<close>\<close>

text \<open>
  The earlier file has its own \<open>numberFrom\<close> and \<open>extractPrice\<close>, and an \<open>extractRangeKm\<close>
  that ends after the nine paths (\<open>pick\<close> is the same text in both files).
\<close>

fun numberFrom_part_000 :: "jsval \<Rightarrow> jsnum option" where
  "numberFrom_part_000 (JNum n) = Some n"
| "numberFrom_part_000 (JStr s) =
     (let n = parseFloat (stripNonNumeric s) in if isFinite n then Some n else None)"
| "numberFrom_part_000 v = None"

fun extractPrice_loop_part_000 :: "jsval \<Rightarrow> jsstring list \<Rightarrow> jsnum option" where
  "extractPrice_loop_part_000 item [] = None"
| "extractPrice_loop_part_000 item (k # ks) =
     (case numberFrom_part_000 (getProp item k) of
        Some n \<Rightarrow> Some n
      | None \<Rightarrow> extractPrice_loop_part_000 item ks)"

definition extractPrice_part_000 :: "jsval \<Rightarrow> jsnum option" where
  "extractPrice_part_000 item =
     extractPrice_loop_part_000 item
       [str ''PurchasePrice'', str ''Price'', str ''TotalPrice'', str ''TotalPriceAndFees'']"

fun extractRangeKm_loop_part_000 :: "jsval \<Rightarrow> jsstring list list \<Rightarrow> jsnum option" where
  "extractRangeKm_loop_part_000 item [] = None"
| "extractRangeKm_loop_part_000 item (p # ps) =
     (case numberFrom_part_000 (pick item p) of
        Some n \<Rightarrow> Some n
      | None \<Rightarrow> extractRangeKm_loop_part_000 item ps)"

definition extractRangeKm_part_000 :: "jsval \<Rightarrow> jsnum option" where
  "extractRangeKm_part_000 item =
     extractRangeKm_loop_part_000 item
       [[str ''Range''],
        [str ''WLTPRange''],
        [str ''BatteryRange''],
        [str ''EUCombinedRange''],
        [str ''Spec'', str ''Range''],
        [str ''Spec'', str ''WLTPRange''],
        [str ''Spec'', str ''EUCombinedRange''],
        [str ''Spec'', str ''wltp_range''],
        [str ''Spec'', str ''range'']]"

section \<open>The link of a record\<close>

definition REFERER_URL :: jsstring where
  "REFERER_URL = str ''https://www.tesla.com/de_DE/inventory/used/m3?arrangeby=plh&range=0''"

text \<open>\<^verbatim>\<open>/^https?:/\<close>\<close>

definition rx_http :: rx where
  "rx_http = Seq Bol (Seq (Lit (str ''http'')) (Seq (Opt (Lit (str ''s''))) (Lit (str '':''))))"

definition href_keys :: "jsstring list" where
  "href_keys = [str ''PrcUrl'', str ''PermaLink'', str ''WebUrl'', str ''permalink'']"

definition vin_keys :: "jsstring list" where
  "vin_keys = [str ''VIN'', str ''Vin'', str ''vin'']"

text \<open>
  \<^verbatim>\<open>
  function itemUrl(item) {
    const href = item?.PrcUrl || item?.PermaLink || item?.WebUrl || item?.permalink;
    if (href) return /^https?:/.test(href) ? href : `https://www.tesla.com${href}`;
    const vin = item?.VIN || item?.Vin || item?.vin || "";
    return `${REFERER_URL}#${vin || "result"}`;
  }
  \<close>
  \<^verbatim>\<open>test\<close> and the template convert \<open>href\<close> to a string; when the pattern matches, \<open>href\<close>
  itself is returned.
\<close>

definition hrefOf :: "jsval \<Rightarrow> jsval" where
  "hrefOf item =
     js_or (js_or (js_or (getProp item (str ''PrcUrl'')) (getProp item (str ''PermaLink'')))
                  (getProp item (str ''WebUrl'')))
           (getProp item (str ''permalink''))"

definition vinOf :: "jsval \<Rightarrow> jsval" where
  "vinOf item =
     js_or (js_or (js_or (getProp item (str ''VIN'')) (getProp item (str ''Vin'')))
                  (getProp item (str ''vin'')))
           (JStr [])"

definition itemUrl :: "runtime \<Rightarrow> jsval \<Rightarrow> error + jsval" where
  "itemUrl rt item =
     (let href = hrefOf item
      in if truthy href then
           (case ToString rt href of
              Inl e \<Rightarrow> Inl e
            | Inr h \<Rightarrow>
                if rx_test rx_http h then Inr href
                else Inr (JStr (str ''https://www.tesla.com'' @ h)))
         else
           (let vin = vinOf item
            in case ToString rt (js_or vin (JStr (str ''result''))) of
                 Inl e \<Rightarrow> Inl e
               | Inr v \<Rightarrow> Inr (JStr (REFERER_URL @ str ''#'' @ v))))"

section \<open>The message of a match\<close>

text \<open>
  \<^verbatim>\<open>
  function fmtEUR(n) {
    try { return new Intl.NumberFormat("de-DE", {...}).format(n); }
    catch { return `${n} \<euro>`; }
  }
  \<close>
\<close>

definition fmtEUR :: "runtime \<Rightarrow> jsnum \<Rightarrow> jsstring" where
  "fmtEUR rt n =
     (case intlFormat rt n of
        Some s \<Rightarrow> s
      | None \<Rightarrow> numberToString rt n @ str '' '' @ [8364])"

text \<open>\<^verbatim>\<open>Math.round\<close>: the nearest integer, a half going up.\<close>

fun mathRound :: "jsnum \<Rightarrow> jsnum" where
  "mathRound (Fin q) = Fin (of_int \<lfloor>q + 1 / 2\<rfloor>)"
| "mathRound n = n"

text \<open>\<^verbatim>\<open>s.trim()\<close> removes white space and line terminators at both ends.\<close>

definition js_trim :: "jsstring \<Rightarrow> jsstring" where
  "js_trim s = rev (dropWhile (in_ranges space_ranges) (rev (dropWhile (in_ranges space_ranges) s)))"

text \<open>The bullet \<^verbatim>\<open>U+2022\<close> and the car \<^verbatim>\<open>U+1F697\<close> (a surrogate pair).\<close>

definition bullet :: jsstring where
  "bullet = [8226]"

definition car :: jsstring where
  "car = [55357, 56983]"

text \<open>
  \<^verbatim>\<open>
  const odom = numberFrom(item?.Odometer ?? item?.Mileage ?? item?.Km);
  const odoTxt = odom ? ` \<bullet> ${Math.round(odom)} km` : "";
  \<close>
\<close>

definition odomOf :: "jsval \<Rightarrow> jsnum option" where
  "odomOf item =
     numberFrom (js_coalesce (js_coalesce (getProp item (str ''Odometer''))
                                          (getProp item (str ''Mileage'')))
                             (getProp item (str ''Km'')))"

definition odoTxt :: "runtime \<Rightarrow> jsval \<Rightarrow> jsstring" where
  "odoTxt rt item =
     (case odomOf item of
        None \<Rightarrow> []
      | Some odom \<Rightarrow>
          if truthy_num odom
          then str '' '' @ bullet @ str '' '' @ numberToString rt (mathRound odom) @ str '' km''
          else [])"

text \<open>
  \<^verbatim>\<open>const line2 = `${fmtEUR(price)} \<bullet> Reichweite ~${Math.round(rangeKm)} km${odoTxt}`;\<close>
\<close>

definition line2 :: "runtime \<Rightarrow> jsval \<Rightarrow> jsnum \<Rightarrow> jsnum \<Rightarrow> jsstring" where
  "line2 rt item price rangeKm =
     fmtEUR rt price @ str '' '' @ bullet @ str '' Reichweite ~''
       @ numberToString rt (mathRound rangeKm) @ str '' km'' @ odoTxt rt item"

text \<open>
  \<^verbatim>\<open>const line1 = `\<dots> ${year ? year + " " : ""}Tesla Model 3 ${trim}`.trim();\<close>
  with \<^verbatim>\<open>year = item?.Year || item?.year || ""\<close>. For a value out of \<^verbatim>\<open>JSON.parse\<close>,
  \<^verbatim>\<open>year + " "\<close> is the string of \<open>year\<close> followed by the space.
\<close>

definition line1 :: "runtime \<Rightarrow> jsval \<Rightarrow> error + jsstring" where
  "line1 rt item =
     (let year = js_or (js_or (getProp item (str ''Year'')) (getProp item (str ''year''))) (JStr []);
          trim = trimLabel item
      in case (if truthy year
               then (case ToString rt year of Inl e \<Rightarrow> Inl e | Inr y \<Rightarrow> Inr (y @ str '' ''))
               else Inr [])
         of Inl e \<Rightarrow> Inl e
          | Inr y \<Rightarrow>
              (case ToString rt trim of
                 Inl e \<Rightarrow> Inl e
               | Inr t \<Rightarrow> Inr (js_trim (car @ str '' '' @ y @ str ''Tesla Model 3 '' @ t))))"

text \<open>\<^verbatim>\<open>return `${line1}\n${line2}\n${itemUrl(item)}`;\<close>\<close>

definition summarize :: "runtime \<Rightarrow> jsval \<Rightarrow> jsnum \<Rightarrow> jsnum \<Rightarrow> error + jsstring" where
  "summarize rt item price rangeKm =
     (case line1 rt item of
        Inl e \<Rightarrow> Inl e
      | Inr l1 \<Rightarrow>
          (case itemUrl rt item of
             Inl e \<Rightarrow> Inl e
           | Inr u \<Rightarrow>
               (case ToString rt u of
                  Inl e \<Rightarrow> Inl e
                | Inr us \<Rightarrow> Inr (l1 @ [10] @ line2 rt item price rangeKm @ [10] @ us))))"

section \<open>The filter\<close>

definition TARGET_PRICE_EUR :: jsnum where
  "TARGET_PRICE_EUR = Fin 29000"

definition MIN_RANGE_KM :: jsnum where
  "MIN_RANGE_KM = Fin 600"

record match =
  m_item :: jsval
  m_price :: jsnum
  m_rangeKm :: jsnum

text \<open>
  The loop over the results, with the matches pushed so far. An exception of
  \<open>extractRangeKm\<close> leaves the loop (the driver catches it at the top).
  \<^verbatim>\<open>
  for (const item of results) {
    const price = extractPrice(item);
    const rangeKm = extractRangeKm(item);
    if (price == null || rangeKm == null) continue;
    if (price < TARGET_PRICE_EUR && rangeKm > MIN_RANGE_KM) {
      matches.push({ item, price, rangeKm });
    }
  }
  \<close>
\<close>

fun matches_loop :: "runtime \<Rightarrow> jsval list \<Rightarrow> match list \<Rightarrow> error + match list" where
  "matches_loop rt [] matches = Inr matches"
| "matches_loop rt (item # results) matches =
     (let price = extractPrice item
      in case extractRangeKm rt item of
           Inl e \<Rightarrow> Inl e
         | Inr rangeKm \<Rightarrow>
             (case price of
                None \<Rightarrow> matches_loop rt results matches
              | Some p \<Rightarrow>
                  (case rangeKm of
                     None \<Rightarrow> matches_loop rt results matches
                   | Some r \<Rightarrow>
                       if num_less p TARGET_PRICE_EUR \<and> num_less MIN_RANGE_KM r
                       then matches_loop rt results
                              (matches @ [\<lparr>m_item = item, m_price = p, m_rangeKm = r\<rparr>])
                       else matches_loop rt results matches)))"

text \<open>\<^verbatim>\<open>const results = data?.results || data?.Results || [];\<close>\<close>

definition resultsOf :: "jsval \<Rightarrow> jsval" where
  "resultsOf data =
     js_or (js_or (getProp data (str ''results'')) (getProp data (str ''Results''))) (JArr [])"

section \<open>Notions of the specification, and examples\<close>

text \<open>
  The number a decimal text denotes, with \<open>ip\<close> the digits before the point and \<open>fp\<close> the
  digits after it.
\<close>

definition decimalValue :: "jsstring \<Rightarrow> jsstring \<Rightarrow> rat" where
  "decimalValue ip fp = of_int (digitsValue ip) + of_int (digitsValue fp) / 10 ^ length fp"

text \<open>
  What the specification calls a value that starts with a URL scheme: a letter, then
  letters, digits, \<^verbatim>\<open>+\<close>, \<^verbatim>\<open>-\<close> or \<^verbatim>\<open>.\<close>, then a colon (RFC 3986). It is used to state
  what the program does not do; the program's own test is \<open>rx_http\<close>.
\<close>

definition spec_scheme_char :: "nat \<Rightarrow> bool" where
  "spec_scheme_char c =
     in_ranges [(97, 122), (65, 90), (48, 57), (43, 43), (45, 45), (46, 46)] c"

definition spec_starts_with_scheme :: "jsstring \<Rightarrow> bool" where
  "spec_starts_with_scheme s =
     (case s of
        [] \<Rightarrow> False
      | c # t \<Rightarrow>
          in_ranges [(97, 122), (65, 90)] c \<and>
          (case dropWhile spec_scheme_char t of [] \<Rightarrow> False | d # u \<Rightarrow> d = 58))"

text \<open>
  The filter as the specification states it, a predicate on one record: the match of a
  record whose price is a number below 29000 and whose range is a number above 600, and
  no match for any other record.
\<close>

definition spec_filter :: "runtime \<Rightarrow> jsval \<Rightarrow> match option" where
  "spec_filter rt item =
     (case extractPrice item of
        None \<Rightarrow> None
      | Some p \<Rightarrow>
          (case extractRangeKm rt item of
             Inl e \<Rightarrow> None
           | Inr None \<Rightarrow> None
           | Inr (Some r) \<Rightarrow>
               if num_less p (Fin 29000) \<and> num_less (Fin 600) r
               then Some \<lparr>m_item = item, m_price = p, m_rangeKm = r\<rparr>
               else None))"

text \<open>The three fields \<open>summarize\<close> reads the odometer from, in the order of the \<^verbatim>\<open>??\<close> chain.\<close>

definition odometer_keys :: "jsstring list" where
  "odometer_keys = [str ''Odometer'', str ''Mileage'', str ''Km'']"

text \<open>
  A runtime for the examples. On what the examples give it (ASCII labels, whole numbers
  below \<open>10\<^sup>2\<^sup>1\<close>, plain objects) it returns what the platform returns; the formatter of
  \<^verbatim>\<open>Intl\<close> is taken to be missing, so that \<open>fmtEUR\<close> falls back to its plain form.
\<close>

definition asciiLower :: "jsstring \<Rightarrow> jsstring" where
  "asciiLower s = map (\<lambda>c. if 65 \<le> c \<and> c \<le> 90 then c + 32 else c) s"

fun decimalDigits :: "nat \<Rightarrow> jsstring" where
  "decimalDigits n = (if n < 10 then [48 + n] else decimalDigits (n div 10) @ [48 + n mod 10])"

declare decimalDigits.simps [simp del]

fun wholeNumberText :: "jsnum \<Rightarrow> jsstring" where
  "wholeNumberText (Fin q) =
     (if q < 0 then 45 # decimalDigits (nat \<lfloor>- q\<rfloor>) else decimalDigits (nat \<lfloor>q\<rfloor>))"
| "wholeNumberText PosInf = str ''Infinity''"
| "wholeNumberText NegInf = str ''-Infinity''"
| "wholeNumberText NaN = str ''NaN''"

definition exampleRuntime :: runtime where
  "exampleRuntime =
     \<lparr>toLowerCase = asciiLower,
      numberToString = wholeNumberText,
      objectToString = (\<lambda>v. Inr (str ''[object Object]'')),
      intlFormat = (\<lambda>n. None)\<rparr>"

text \<open>
  A listing with two price fields, two range fields, a label, a relative link and an
  odometer under its second name.
\<close>

definition ex_listing :: jsval where
  "ex_listing =
     JObj [(str ''Price'', JNum (Fin 25000)),
           (str ''TotalPrice'', JNum (Fin 26000)),
           (str ''WLTPRange'', JStr (str ''650 km'')),
           (str ''Spec'', JObj [(str ''range'', JNum (Fin 500))]),
           (str ''TrimName'', JStr (str ''Long Range AWD'')),
           (str ''PrcUrl'', JStr (str ''/de_DE/m3/order/5YJ3'')),
           (str ''Odometer'', JNull),
           (str ''Mileage'', JNum (Fin (102469 / 2)))]"

text \<open>A listing priced at the threshold, and one whose range is at the threshold.\<close>

definition ex_price_at_threshold :: jsval where
  "ex_price_at_threshold = JObj [(str ''Price'', JNum (Fin 29000)), (str ''Range'', JNum (Fin 650))]"

definition ex_range_at_threshold :: jsval where
  "ex_range_at_threshold = JObj [(str ''Price'', JNum (Fin 25000)), (str ''Range'', JNum (Fin 600))]"

text \<open>A listing with a label and no range field, and one whose label is a number.\<close>

definition ex_label_only :: jsval where
  "ex_label_only =
     JObj [(str ''Price'', JNum (Fin 25000)), (str ''TrimName'', JStr (str ''Model 3 Long Range AWD''))]"

definition ex_price_only :: jsval where
  "ex_price_only = JObj [(str ''Price'', JNum (Fin 25000))]"

definition ex_label_number :: jsval where
  "ex_label_number = JObj [(str ''Price'', JNum (Fin 25000)), (str ''TrimName'', JNum (Fin 3))]"

text \<open>A record with no price field whose label is a number.\<close>

definition ex_no_price_label_number :: jsval where
  "ex_no_price_label_number = JObj [(str ''TrimName'', JNum (Fin 3))]"

text \<open>\<^verbatim>\<open>JSON.parse\<close> reads \<^verbatim>\<open>1e999\<close> as \<^verbatim>\<open>Infinity\<close>.\<close>

definition ex_infinite :: jsval where
  "ex_infinite = JObj [(str ''Price'', JNum NegInf), (str ''Range'', JNum PosInf)]"

definition ex_ftp_link :: jsval where
  "ex_ftp_link = JObj [(str ''PrcUrl'', JStr (str ''ftp://example.com/m3''))]"

definition ex_absolute_link :: jsval where
  "ex_absolute_link = JObj [(str ''PrcUrl'', JStr []), (str ''WebUrl'', JStr (str ''https://www.tesla.com/m3''))]"

definition ex_odometer_zero :: jsval where
  "ex_odometer_zero = JObj [(str ''Odometer'', JNum (Fin 0))]"

definition ex_odometer_text :: jsval where
  "ex_odometer_text =
     JObj [(str ''Odometer'', JStr (str ''n/a'')), (str ''Mileage'', JNum (Fin 50000))]"

text \<open>Three response bodies: the list under either casing of the key, and no list.\<close>

definition ex_response_lower :: jsval where
  "ex_response_lower = JObj [(str ''total_matches_found'', JNum (Fin 1)), (str ''results'', JArr [ex_listing])]"

definition ex_response_upper :: jsval where
  "ex_response_upper = JObj [(str ''Results'', JArr [ex_listing, ex_odometer_zero])]"

definition ex_response_empty :: jsval where
  "ex_response_empty = JObj [(str ''total_matches_found'', JNum (Fin 0))]"

section \<open>Lemmas about the loops\<close>

lemmas model_eval =
  str_def in_ranges_def digit_ranges_def word_ranges_def space_ranges_def
  isDigit_def stripNonNumeric_def parseFloat_def digitsValue_def toDouble_def ilog2_def
  bitlen.simps pow2_def roundHalfEven_def Let_def pick_def js_or_def js_coalesce_def

lemma extractPrice_loop_first:
  "\<forall>k'\<in>set pre. numberFrom (getProp item k') = None \<Longrightarrow>
   numberFrom (getProp item k) = Some n \<Longrightarrow>
   extractPrice_loop item (pre @ k # post) = Some n"
  by (induction pre) simp_all

lemma extractRangeKm_loop_first:
  "\<forall>q\<in>set pre. numberFrom (pick item q) = None \<Longrightarrow>
   numberFrom (pick item p) = Some n \<Longrightarrow>
   extractRangeKm_loop item (pre @ p # post) = Some n"
  by (induction pre) simp_all

lemma extractRangeKm_loop_None:
  "(extractRangeKm_loop item ps = None) = (\<forall>p\<in>set ps. numberFrom (pick item p) = None)"
  by (induction ps) (auto split: option.splits)

lemma extractPrice_loop_Some:
  "extractPrice_loop item ks = Some n \<Longrightarrow> \<exists>k\<in>set ks. numberFrom (getProp item k) = Some n"
  by (induction ks) (auto split: option.splits)

lemma extractRangeKm_loop_Some:
  "extractRangeKm_loop item ps = Some n \<Longrightarrow> \<exists>p\<in>set ps. numberFrom (pick item p) = Some n"
  by (induction ps) (auto split: option.splits)

lemma numberFrom_not_finite:
  "numberFrom v = Some n \<Longrightarrow> \<not> isFinite n \<Longrightarrow> v = JNum n"
  by (cases v) (auto simp: Let_def split: if_splits)

lemma numberFrom_text_finite:
  "numberFrom (JStr s) = Some n \<Longrightarrow> isFinite n"
  by (auto simp: Let_def split: if_splits)

lemma numberFrom_part_000_eq: "numberFrom_part_000 v = numberFrom v"
  by (cases v) simp_all

lemma extractRangeKm_loop_part_000_eq:
  "extractRangeKm_loop_part_000 item ps = extractRangeKm_loop item ps"
  by (induction ps) (simp_all add: numberFrom_part_000_eq split: option.splits)

subsection \<open>The examples, evaluated\<close>

lemma ex_listing_price: "extractPrice ex_listing = Some (Fin 25000)"
  by (simp add: extractPrice_def price_keys_def ex_listing_def str_def)

lemma ex_listing_range: "extractRangeKm rt ex_listing = Inr (Some (Fin 650))"
  by (simp add: extractRangeKm_def range_paths_def ex_listing_def model_eval)

lemma ex_price_at_threshold_price: "extractPrice ex_price_at_threshold = Some (Fin 29000)"
  by (simp add: extractPrice_def price_keys_def ex_price_at_threshold_def str_def)

lemma ex_range_at_threshold_range: "extractRangeKm rt ex_range_at_threshold = Inr (Some (Fin 600))"
  by (simp add: extractRangeKm_def range_paths_def ex_range_at_threshold_def model_eval)

lemma ex_price_at_threshold_range: "extractRangeKm rt ex_price_at_threshold = Inr (Some (Fin 650))"
  by (simp add: extractRangeKm_def range_paths_def ex_price_at_threshold_def model_eval)

lemma ex_range_at_threshold_price: "extractPrice ex_range_at_threshold = Some (Fin 25000)"
  by (simp add: extractPrice_def price_keys_def ex_range_at_threshold_def str_def)

section \<open>The filter: one round and a whole run\<close>

text \<open>
  One round of the loop. When range extraction returns, the round pushes the match of the
  record if the specification's filter has one, pushes nothing otherwise, and the loop goes
  on with the next record. When range extraction throws, the loop ends with the exception.
\<close>

lemma spec_filter_iff:
  "(spec_filter rt item = Some m) =
     (\<exists>p r. extractPrice item = Some p \<and> num_less p (Fin 29000) \<and>
            extractRangeKm rt item = Inr (Some r) \<and> num_less (Fin 600) r \<and>
            m = \<lparr>m_item = item, m_price = p, m_rangeKm = r\<rparr>)"
  by (auto simp: spec_filter_def split: option.splits sum.splits)

lemma spec_filter_bounds:
  "extractPrice item = None \<or> extractPrice item = Some (Fin 29000) \<or>
   extractRangeKm rt item = Inr None \<or> extractRangeKm rt item = Inr (Some (Fin 600))
   \<Longrightarrow> spec_filter rt item = None"
  by (auto simp: spec_filter_def split: option.splits sum.splits)

lemma matches_loop_step:
  "extractRangeKm rt item = Inr rk \<Longrightarrow>
   matches_loop rt (item # results) acc =
     matches_loop rt results (case spec_filter rt item of None \<Rightarrow> acc | Some m \<Rightarrow> acc @ [m])"
  by (simp add: spec_filter_def TARGET_PRICE_EUR_def MIN_RANGE_KM_def split: option.splits)

lemma matches_loop_skip:
  "extractRangeKm rt item = Inr rk \<Longrightarrow> spec_filter rt item = None \<Longrightarrow>
   matches_loop rt (item # results) acc = matches_loop rt results acc"
  by (simp add: matches_loop_step del: matches_loop.simps)

lemma matches_loop_abort:
  "extractRangeKm rt item = Inl e \<Longrightarrow> matches_loop rt (item # results) acc = Inl e"
  by simp

text \<open>
  A run in which no range extraction throws finishes, and its matches are those of the
  specification's filter, in the order of the results.
\<close>

lemma matches_loop_run:
  "\<forall>item\<in>set results. \<exists>rk. extractRangeKm rt item = Inr rk \<Longrightarrow>
   matches_loop rt results acc = Inr (acc @ List.map_filter (spec_filter rt) results)"
proof (induction results arbitrary: acc)
  case Nil
  show ?case by (simp add: List.map_filter_simps)
next
  case (Cons item results)
  then obtain rk where rk: "extractRangeKm rt item = Inr rk" by auto
  have rest: "\<forall>item\<in>set results. \<exists>rk. extractRangeKm rt item = Inr rk"
    using Cons.prems by simp
  show ?case
    unfolding matches_loop_step[OF rk] Cons.IH[OF rest]
    by (simp add: List.map_filter_simps split: option.splits)
qed

lemma matches_loop_run_examples:
  "matches_loop exampleRuntime [ex_price_at_threshold, ex_listing, ex_range_at_threshold] [] =
     Inr [\<lparr>m_item = ex_listing, m_price = Fin 25000, m_rangeKm = Fin 650\<rparr>]"
  by (simp add: ex_listing_price ex_listing_range ex_price_at_threshold_price
      ex_range_at_threshold_range ex_range_at_threshold_price ex_price_at_threshold_range
      TARGET_PRICE_EUR_def MIN_RANGE_KM_def)

text \<open>
  C1. The claim has a record whose price extraction gives \<^verbatim>\<open>null\<close> left out whatever its
  range is, with the other records filtered as before. The loop calls \<open>extractRangeKm\<close>
  before it tests the price for \<^verbatim>\<open>null\<close>. On a record that has no price and a number for
  its label, price extraction gives \<^verbatim>\<open>null\<close> and range extraction throws: the run ends
  with the \<^verbatim>\<open>TypeError\<close> instead of passing over the record, and the listing behind it,
  which the filter accepts when it stands alone, gets no match.
\<close>

theorem filter_aborts_on_number_label:
  "extractPrice ex_no_price_label_number = None
   \<and> extractRangeKm exampleRuntime ex_no_price_label_number = Inl TypeError
   \<and> matches_loop exampleRuntime [ex_no_price_label_number, ex_listing] [] = Inl TypeError
   \<and> matches_loop exampleRuntime [ex_listing] [] =
       Inr [\<lparr>m_item = ex_listing, m_price = Fin 25000, m_rangeKm = Fin 650\<rparr>]
   \<and> List.map_filter (spec_filter exampleRuntime) [ex_no_price_label_number, ex_listing] =
       [\<lparr>m_item = ex_listing, m_price = Fin 25000, m_rangeKm = Fin 650\<rparr>]"
proof -
  have p: "extractPrice ex_no_price_label_number = None"
    by (simp add: extractPrice_def price_keys_def ex_no_price_label_number_def str_def)
  have paths: "extractRangeKm_loop ex_no_price_label_number range_paths = None"
    by (simp add: range_paths_def ex_no_price_label_number_def str_def pick_def)
  have label: "trimLabel ex_no_price_label_number = JNum (Fin 3)"
    by (simp add: trimLabel_def ex_no_price_label_number_def str_def js_or_def)
  have r: "extractRangeKm exampleRuntime ex_no_price_label_number = Inl TypeError"
    by (simp add: extractRangeKm_def paths label)
  have alone: "matches_loop exampleRuntime [ex_listing] [] =
       Inr [\<lparr>m_item = ex_listing, m_price = Fin 25000, m_rangeKm = Fin 650\<rparr>]"
    by (simp add: ex_listing_price ex_listing_range TARGET_PRICE_EUR_def MIN_RANGE_KM_def)
  have spec: "List.map_filter (spec_filter exampleRuntime) [ex_no_price_label_number, ex_listing] =
       [\<lparr>m_item = ex_listing, m_price = Fin 25000, m_rangeKm = Fin 650\<rparr>]"
    by (simp add: List.map_filter_simps spec_filter_def p ex_listing_price ex_listing_range)
  show ?thesis
    using p r alone spec by simp
qed

section \<open>The two files agree on coercion and price\<close>

text \<open>
  C10. \<open>numberFrom\<close> and \<open>extractPrice\<close> of \<^verbatim>\<open>src/check.js\<close> and those of
  \<^verbatim>\<open>src/unnamed/part_000\<close> return the same result on every value and on every record.
\<close>

theorem variants_agree:
  "numberFrom_part_000 v = numberFrom v \<and> extractPrice_part_000 item = extractPrice item"
proof -
  have loop: "extractPrice_loop_part_000 item ks = extractPrice_loop item ks" for ks
    by (induction ks) (simp_all add: numberFrom_part_000_eq split: option.splits)
  show ?thesis
    unfolding extractPrice_part_000_def extractPrice_def price_keys_def loop
    by (simp add: numberFrom_part_000_eq)
qed

theorem variants_agree_witness:
  "numberFrom_part_000 (JStr (str ''650 km'')) = Some (Fin 650)
   \<and> extractPrice_part_000 ex_listing = Some (Fin 25000)"
proof -
  have "numberFrom (JStr (str ''650 km'')) = Some (Fin 650)"
    by (simp add: model_eval)
  then show ?thesis
    using variants_agree[of "JStr (str ''650 km'')" ex_listing] ex_listing_price by simp
qed

section \<open>The first candidate that coerces wins\<close>

text \<open>
  The claim C4 counts five flat and four nested range candidates. The list in the source
  has four paths of one key and five paths of two keys.
\<close>

theorem range_candidates_counterexample:
  "\<not> (length (filter (\<lambda>p. length p = 1) range_paths) = 5 \<and>
      length (filter (\<lambda>p. length p = 2) range_paths) = 4)"
  by (simp add: range_paths_def)

text \<open>
  C4, amended. Price extraction has four flat candidates and range extraction has four flat
  and five nested ones. Each returns the value of the first candidate, in the order of its
  list, that coerces to a number: when the candidates before it all fail to coerce, the
  result is its value, whatever the candidates after it hold.
\<close>

theorem first_candidate_wins:
  "length price_keys = 4 \<and> map length range_paths = [1, 1, 1, 1, 2, 2, 2, 2, 2]
   \<and> (price_keys = pre @ k # post \<and>
       (\<forall>k'\<in>set pre. numberFrom (getProp item k') = None) \<and>
       numberFrom (getProp item k) = Some n
       \<longrightarrow> extractPrice item = Some n)
   \<and> (range_paths = pre' @ p # post' \<and>
       (\<forall>q\<in>set pre'. numberFrom (pick item q) = None) \<and>
       numberFrom (pick item p) = Some n'
       \<longrightarrow> extractRangeKm rt item = Inr (Some n'))"
proof (intro conjI impI)
  show "length price_keys = 4" by (simp add: price_keys_def)
  show "map length range_paths = [1, 1, 1, 1, 2, 2, 2, 2, 2]" by (simp add: range_paths_def)
next
  assume "price_keys = pre @ k # post \<and>
       (\<forall>k'\<in>set pre. numberFrom (getProp item k') = None) \<and>
       numberFrom (getProp item k) = Some n"
  then show "extractPrice item = Some n"
    using extractPrice_loop_first[of pre item k n post] by (simp add: extractPrice_def)
next
  assume "range_paths = pre' @ p # post' \<and>
       (\<forall>q\<in>set pre'. numberFrom (pick item q) = None) \<and>
       numberFrom (pick item p) = Some n'"
  then show "extractRangeKm rt item = Inr (Some n')"
    using extractRangeKm_loop_first[of pre' item p n' post'] by (simp add: extractRangeKm_def)
qed

theorem first_candidate_wins_witness:
  "numberFrom (getProp ex_listing (str ''TotalPrice'')) = Some (Fin 26000)
   \<and> extractPrice ex_listing = Some (Fin 25000)
   \<and> numberFrom (pick ex_listing [str ''Spec'', str ''range'']) = Some (Fin 500)
   \<and> extractRangeKm exampleRuntime ex_listing = Inr (Some (Fin 650))"
proof (intro conjI)
  show "numberFrom (getProp ex_listing (str ''TotalPrice'')) = Some (Fin 26000)"
    by (simp add: ex_listing_def str_def)
  show "numberFrom (pick ex_listing [str ''Spec'', str ''range'']) = Some (Fin 500)"
    by (simp add: ex_listing_def str_def pick_def)
  have keys: "price_keys = [str ''PurchasePrice''] @ str ''Price'' # [str ''TotalPrice'', str ''TotalPriceAndFees'']"
    by (simp add: price_keys_def)
  have before: "\<forall>k'\<in>set [str ''PurchasePrice'']. numberFrom (getProp ex_listing k') = None"
    by (simp add: ex_listing_def str_def)
  have here: "numberFrom (getProp ex_listing (str ''Price'')) = Some (Fin 25000)"
    by (simp add: ex_listing_def str_def)
  show "extractPrice ex_listing = Some (Fin 25000)"
    using first_candidate_wins[of "[str ''PurchasePrice'']" "str ''Price''"
        "[str ''TotalPrice'', str ''TotalPriceAndFees'']" ex_listing "Fin 25000"] keys before here
    by blast
  have paths: "range_paths = [[str ''Range'']] @ [str ''WLTPRange''] # drop 2 range_paths"
    by (simp add: range_paths_def)
  have before': "\<forall>q\<in>set [[str ''Range'']]. numberFrom (pick ex_listing q) = None"
    by (simp add: ex_listing_def str_def pick_def)
  have here': "numberFrom (pick ex_listing [str ''WLTPRange'']) = Some (Fin 650)"
    by (simp add: ex_listing_def model_eval)
  show "extractRangeKm exampleRuntime ex_listing = Inr (Some (Fin 650))"
    using first_candidate_wins[where item = ex_listing and rt = exampleRuntime
        and pre' = "[[str ''Range'']]" and p = "[str ''WLTPRange'']"
        and post' = "drop 2 range_paths" and n' = "Fin 650"] paths before' here'
    by blast
qed

section \<open>Finite and non-finite numbers\<close>

text \<open>
  The claim C3 says that a non-finite number is never returned as the extracted number.
  A field that already holds a number is returned as it is: on a record whose price is
  \<^verbatim>\<open>-Infinity\<close> and whose range is \<^verbatim>\<open>Infinity\<close> both extractions return these values, and
  the filter accepts the record.
\<close>

theorem non_finite_counterexample:
  "extractPrice ex_infinite = Some NegInf \<and> \<not> isFinite NegInf
   \<and> extractRangeKm exampleRuntime ex_infinite = Inr (Some PosInf) \<and> \<not> isFinite PosInf
   \<and> matches_loop exampleRuntime [ex_infinite] [] =
       Inr [\<lparr>m_item = ex_infinite, m_price = NegInf, m_rangeKm = PosInf\<rparr>]"
proof -
  have p: "extractPrice ex_infinite = Some NegInf"
    by (simp add: extractPrice_def price_keys_def ex_infinite_def str_def)
  have r: "extractRangeKm exampleRuntime ex_infinite = Inr (Some PosInf)"
    by (simp add: extractRangeKm_def range_paths_def ex_infinite_def str_def pick_def)
  show ?thesis
    by (simp add: p r TARGET_PRICE_EUR_def MIN_RANGE_KM_def)
qed

text \<open>
  C3, amended. Coercion passes a number through unchanged, finite or not. From a text it
  returns the number parsed from the stripped text when that number is finite, and
  \<^verbatim>\<open>null\<close> otherwise, so no text gives a non-finite number. Hence a price or a range that
  is not finite was not parsed: it is the value that one of the candidate fields already
  holds as a number.
\<close>

theorem non_finite_only_passed_through:
  "numberFrom (JNum n) = Some n
   \<and> (numberFrom (JStr s) = Some n \<longrightarrow> n = parseFloat (stripNonNumeric s) \<and> isFinite n)
   \<and> (\<not> isFinite (parseFloat (stripNonNumeric s)) \<longrightarrow> numberFrom (JStr s) = None)
   \<and> (extractPrice item = Some n \<and> \<not> isFinite n
        \<longrightarrow> (\<exists>k\<in>set price_keys. getProp item k = JNum n))
   \<and> (extractRangeKm rt item = Inr (Some n) \<and> \<not> isFinite n
        \<longrightarrow> (\<exists>p\<in>set range_paths. pick item p = JNum n))"
proof (intro conjI impI)
  show "numberFrom (JNum n) = Some n" by simp
next
  assume "numberFrom (JStr s) = Some n"
  then show "n = parseFloat (stripNonNumeric s)" by (auto simp: Let_def split: if_splits)
next
  assume "numberFrom (JStr s) = Some n"
  then show "isFinite n" by (rule numberFrom_text_finite)
next
  assume "\<not> isFinite (parseFloat (stripNonNumeric s))"
  then show "numberFrom (JStr s) = None" by (simp add: Let_def)
next
  assume a: "extractPrice item = Some n \<and> \<not> isFinite n"
  then obtain k where "k \<in> set price_keys" and "numberFrom (getProp item k) = Some n"
    using extractPrice_loop_Some[of item price_keys n] by (auto simp: extractPrice_def)
  with a show "\<exists>k\<in>set price_keys. getProp item k = JNum n"
    using numberFrom_not_finite by blast
next
  assume a: "extractRangeKm rt item = Inr (Some n) \<and> \<not> isFinite n"
  then have "extractRangeKm_loop item range_paths = Some n"
    by (auto simp: extractRangeKm_def Let_def split: option.splits jsval.splits if_splits)
  then obtain p where "p \<in> set range_paths" and "numberFrom (pick item p) = Some n"
    using extractRangeKm_loop_Some by blast
  with a show "\<exists>p\<in>set range_paths. pick item p = JNum n"
    using numberFrom_not_finite by blast
qed

theorem non_finite_only_passed_through_witness:
  "numberFrom (JStr (str ''650 km'')) = Some (Fin 650) \<and> isFinite (Fin 650)
   \<and> parseFloat (stripNonNumeric (str ''n/a'')) = NaN \<and> numberFrom (JStr (str ''n/a'')) = None
   \<and> (\<exists>k\<in>set price_keys. getProp ex_infinite k = JNum NegInf)
   \<and> (\<exists>p\<in>set range_paths. pick ex_infinite p = JNum PosInf)"
proof (intro conjI)
  show nan: "parseFloat (stripNonNumeric (str ''n/a'')) = NaN"
    by (simp add: model_eval)
  show "numberFrom (JStr (str ''n/a'')) = None"
    using non_finite_only_passed_through[of _ "str ''n/a''"] nan by simp
  show t: "numberFrom (JStr (str ''650 km'')) = Some (Fin 650)"
    by (simp add: model_eval)
  show "isFinite (Fin 650)"
    using non_finite_only_passed_through[of "Fin 650" "str ''650 km''"] t by blast
  have p: "extractPrice ex_infinite = Some NegInf"
    by (simp add: extractPrice_def price_keys_def ex_infinite_def str_def)
  show "\<exists>k\<in>set price_keys. getProp ex_infinite k = JNum NegInf"
    using non_finite_only_passed_through[of NegInf _ ex_infinite] p by simp
  have r: "extractRangeKm exampleRuntime ex_infinite = Inr (Some PosInf)"
    by (simp add: extractRangeKm_def range_paths_def ex_infinite_def str_def pick_def)
  show "\<exists>p\<in>set range_paths. pick ex_infinite p = JNum PosInf"
    using non_finite_only_passed_through[of PosInf _ ex_infinite exampleRuntime] r by simp
qed

section \<open>Numbers out of text: what the stripped text is read as\<close>

lemma floor_rat_divide_numeral:
  "\<lfloor>numeral a / numeral b :: rat\<rfloor> = numeral a div numeral b"
  by (metis floor_divide_of_int_eq of_int_numeral)

lemma ceiling_rat_divide_numeral:
  "\<lceil>numeral a / numeral b :: rat\<rceil> = - (- numeral a div numeral b)"
  by (metis ceiling_def floor_divide_of_int_eq minus_divide_left of_int_minus of_int_numeral)

lemmas number_eval = model_eval floor_rat_divide_numeral ceiling_rat_divide_numeral

subsection \<open>The rounding is to a nearest double\<close>

text \<open>
  \<open>ilog2\<close> is the binary exponent, and the finite result of \<open>toDouble\<close> is a multiple of
  the spacing at that exponent, at most half a spacing away from the rational.
\<close>

lemma bitlen_pos: "0 < n \<Longrightarrow> 0 < bitlen n"
  by (subst bitlen.simps) simp

lemma bitlen_bounds: "0 < n \<Longrightarrow> 2 ^ (bitlen n - 1) \<le> n \<and> n < 2 ^ bitlen n"
proof (induction n rule: bitlen.induct)
  case (1 n)
  show ?case
  proof (cases "n div 2 = 0")
    case True
    with "1.prems" have "n = 1" by presburger
    then show ?thesis by (simp add: bitlen.simps)
  next
    case False
    with "1.prems" have half: "0 < n div 2" by presburger
    have b: "bitlen n = Suc (bitlen (n div 2))"
      using "1.prems" by (subst bitlen.simps) simp
    from "1.IH" "1.prems" half
    have ih: "2 ^ (bitlen (n div 2) - 1) \<le> n div 2 \<and> n div 2 < 2 ^ bitlen (n div 2)"
      by simp
    have pos: "0 < bitlen (n div 2)" using half by (rule bitlen_pos)
    then obtain k where k: "bitlen (n div 2) = Suc k" by (cases "bitlen (n div 2)") auto
    from ih k have "2 ^ k \<le> n div 2" and "n div 2 < 2 * 2 ^ k" by simp_all
    then have "2 * 2 ^ k \<le> n" and "n < 2 * (2 * 2 ^ k)" by presburger+
    then show ?thesis by (simp add: b k)
  qed
qed

lemma roundHalfEven_near: "\<bar>of_int (roundHalfEven m) - m\<bar> \<le> 1 / 2"
proof -
  have lo: "of_int \<lfloor>m\<rfloor> \<le> m" and hi: "m < of_int \<lfloor>m\<rfloor> + 1"
    by linarith+
  show ?thesis
    unfolding roundHalfEven_def Let_def using lo hi by (simp add: abs_le_iff)
qed

lemma pow2_pos: "0 < pow2 k"
  by (simp add: pow2_def)

lemma ilog2_bounds:
  assumes "0 < q"
  shows "pow2 (ilog2 q) \<le> q \<and> q < pow2 (ilog2 q + 1)"
proof (cases "1 \<le> q")
  case True
  then have n: "0 < \<lfloor>q\<rfloor>" by linarith
  from bitlen_pos[OF n] obtain k where k: "bitlen \<lfloor>q\<rfloor> = Suc k"
    by (cases "bitlen \<lfloor>q\<rfloor>") auto
  from bitlen_bounds[OF n] k have b: "2 ^ k \<le> \<lfloor>q\<rfloor>" "\<lfloor>q\<rfloor> < 2 * 2 ^ k" by simp_all
  have e: "ilog2 q = int k" using True k by (simp add: ilog2_def)
  have "(2::rat) ^ k \<le> of_int \<lfloor>q\<rfloor>"
    using b(1) by (metis of_int_le_iff of_int_numeral of_int_power)
  then have lo: "(2::rat) ^ k \<le> q" by linarith
  have "\<lfloor>q\<rfloor> + 1 \<le> 2 * 2 ^ k" using b(2) by simp
  then have "of_int (\<lfloor>q\<rfloor> + 1) \<le> (2 * 2 ^ k :: rat)"
    by (metis of_int_le_iff of_int_numeral of_int_power of_int_mult)
  then have hi: "q < 2 * 2 ^ k" by (simp add: floor_less_iff) linarith
  show ?thesis unfolding e using lo hi by (simp add: pow2_def nat_add_distrib)
next
  case False
  with assms have q1: "q < 1" by simp
  then have inv: "1 < 1 / q" using assms by simp
  define n where "n = \<lceil>1 / q\<rceil> - 1"
  have n: "0 < n" unfolding n_def using inv by linarith
  have nlo: "of_int n < 1 / q" and nhi: "1 / q \<le> of_int n + 1"
    unfolding n_def by linarith+
  from bitlen_pos[OF n] obtain k where k: "bitlen n = Suc k"
    by (cases "bitlen n") auto
  from bitlen_bounds[OF n] k have b: "2 ^ k \<le> n" "n < 2 * 2 ^ k" by simp_all
  have e: "ilog2 q = - int (Suc k)" using False k by (simp add: ilog2_def n_def)
  have "n + 1 \<le> 2 * 2 ^ k" using b(2) by simp
  then have "of_int (n + 1) \<le> (2 * 2 ^ k :: rat)"
    by (metis of_int_le_iff of_int_numeral of_int_power of_int_mult)
  with nhi have "1 / q \<le> 2 * 2 ^ k" by simp
  then have lo: "1 / (2 * 2 ^ k) \<le> q"
    using assms by (simp add: field_simps)
  have "(2::rat) ^ k \<le> of_int n"
    using b(1) by (metis of_int_le_iff of_int_numeral of_int_power)
  with nlo have "2 ^ k < 1 / q" by linarith
  then have hi: "q < 1 / 2 ^ k"
    using assms by (simp add: field_simps)
  show ?thesis unfolding e using lo hi by (cases k) (simp_all add: pow2_def nat_add_distrib)
qed


lemma toDouble_nearest:
  assumes "0 < q" and "toDouble q = Fin v"
  shows "\<exists>n. v = of_int n * pow2 (max (ilog2 q) (- 1022) - 52) \<and>
             \<bar>v - q\<bar> \<le> pow2 (max (ilog2 q) (- 1022) - 52) / 2"
proof -
  define ulp where "ulp = pow2 (max (ilog2 q) (- 1022) - 52)"
  have pos: "0 < ulp" unfolding ulp_def by (rule pow2_pos)
  have v: "v = of_int (roundHalfEven (q / ulp)) * ulp"
    using assms unfolding toDouble_def Let_def ulp_def by (simp split: if_splits)
  have "\<bar>of_int (roundHalfEven (q / ulp)) - q / ulp\<bar> * ulp \<le> 1 / 2 * ulp"
    using roundHalfEven_near[of "q / ulp"] pos by (simp only: mult_le_cancel_right_pos)
  moreover have "\<bar>of_int (roundHalfEven (q / ulp)) - q / ulp\<bar> * ulp = \<bar>v - q\<bar>"
  proof -
    have "(of_int (roundHalfEven (q / ulp)) - q / ulp) * ulp = v - q"
      using pos unfolding v by (simp add: left_diff_distrib)
    then have "\<bar>v - q\<bar> = \<bar>of_int (roundHalfEven (q / ulp)) - q / ulp\<bar> * \<bar>ulp\<bar>"
      by (simp only: abs_mult[symmetric])
    then show ?thesis using pos by simp
  qed
  ultimately have "\<bar>v - q\<bar> \<le> ulp / 2" by simp
  with v show ?thesis unfolding ulp_def by blast
qed

lemma toDouble_examples:
  "toDouble (1 / 10) = Fin (3602879701896397 / 36028797018963968)"
  "toDouble (1 / 3) = Fin (6004799503160661 / 18014398509481984)"
  "toDouble (2 ^ 53 + 1) = Fin (2 ^ 53)"
  "toDouble (2 ^ 53 + 3) = Fin (2 ^ 53 + 4)"
  by (simp_all add: number_eval)

subsection \<open>Decimal texts\<close>

lemma digitsValue_Nil: "digitsValue [] = 0"
  by (simp add: digitsValue_def)

lemma digitsValue_snoc: "digitsValue (ds @ [d]) = 10 * digitsValue ds + (int d - 48)"
  by (simp add: digitsValue_def)

lemma digitsValue_append:
  "digitsValue (a @ b) = digitsValue a * 10 ^ length b + digitsValue b"
proof (induction b rule: rev_induct)
  case Nil
  show ?case by (simp add: digitsValue_Nil)
next
  case (snoc d bs)
  have "digitsValue (a @ bs @ [d]) = 10 * digitsValue (a @ bs) + (int d - 48)"
    using digitsValue_snoc[of "a @ bs" d] by simp
  also have "\<dots> = 10 * (digitsValue a * 10 ^ length bs + digitsValue bs) + (int d - 48)"
    by (simp only: snoc.IH)
  also have "\<dots> = digitsValue a * 10 ^ length (bs @ [d]) + digitsValue (bs @ [d])"
    by (simp add: digitsValue_snoc algebra_simps)
  finally show ?case .
qed

lemma decimalValue_eq:
  "of_int (digitsValue (ip @ fp)) / 10 ^ length fp = decimalValue ip fp"
  by (simp add: digitsValue_append decimalValue_def add_divide_distrib)

lemma not_isDigit_dot: "\<not> isDigit 46"
  by (simp add: isDigit_def in_ranges_def digit_ranges_def)

lemma takeWhile_digits_stop:
  "\<forall>c\<in>set ds. isDigit c \<Longrightarrow> r = [] \<or> \<not> isDigit (hd r) \<Longrightarrow> takeWhile isDigit (ds @ r) = ds"
  by (cases r) (auto simp: takeWhile_append2)

lemma dropWhile_digits_stop:
  "\<forall>c\<in>set ds. isDigit c \<Longrightarrow> r = [] \<or> \<not> isDigit (hd r) \<Longrightarrow> dropWhile isDigit (ds @ r) = r"
  by (cases r) (auto simp: dropWhile_append2)

lemma parseFloat_integer:
  assumes "\<forall>c\<in>set ip. isDigit c" and "ip \<noteq> []"
  shows "parseFloat ip = toDouble (decimalValue ip [])"
proof -
  have tw: "takeWhile isDigit ip = ip" and dw: "dropWhile isDigit ip = []"
    using assms(1) by simp_all
  show ?thesis
    unfolding parseFloat_def tw dw Let_def using assms(2)
    by (simp add: decimalValue_def digitsValue_Nil)
qed

lemma parseFloat_decimal:
  assumes "\<forall>c\<in>set ip. isDigit c" and "\<forall>c\<in>set fp. isDigit c" and "ip @ fp \<noteq> []"
    and "r = [] \<or> hd r = 46"
  shows "parseFloat (ip @ 46 # fp @ r) = toDouble (decimalValue ip fp)"
proof -
  have r: "r = [] \<or> \<not> isDigit (hd r)"
    using assms(4) not_isDigit_dot by auto
  have stop: "46 # fp @ r = [] \<or> \<not> isDigit (hd (46 # fp @ r))"
    using not_isDigit_dot by simp
  have tw: "takeWhile isDigit (ip @ 46 # fp @ r) = ip"
    using takeWhile_digits_stop[OF assms(1) stop] .
  have dw: "dropWhile isDigit (ip @ 46 # fp @ r) = 46 # fp @ r"
    using dropWhile_digits_stop[OF assms(1) stop] .
  have fp: "takeWhile isDigit (fp @ r) = fp"
    using takeWhile_digits_stop[OF assms(2) r] .
  show ?thesis
    unfolding parseFloat_def tw dw Let_def using assms(3)
    by (auto simp add: fp decimalValue_eq)
qed

lemma parseFloat_no_digit:
  assumes "\<forall>c\<in>set s. \<not> isDigit c"
  shows "parseFloat s = NaN"
proof -
  have tw: "takeWhile isDigit s = []" using assms by (cases s) auto
  have dw: "dropWhile isDigit s = s" using assms by (cases s) auto
  have fp: "(case s of [] \<Rightarrow> [] | c # t \<Rightarrow> if c = 46 then takeWhile isDigit t else []) = []"
    using assms by (cases s; cases "tl s") auto
  show ?thesis unfolding parseFloat_def tw dw fp Let_def by simp
qed

lemma stripNonNumeric_filter: "stripNonNumeric s = filter (\<lambda>c. isDigit c \<or> c = 46) s"
  unfolding stripNonNumeric_def
  by (rule filter_cong) (auto simp: isDigit_def in_ranges_def digit_ranges_def)

text \<open>
  The claim C2 says that coercion yields the value of the number the text denotes. The
  point is kept as a decimal point wherever it stands, and the comma is dropped: a price
  in the German format, which is the format \<open>fmtEUR\<close> of this program prints, is read as
  its thousands only (25 for 25.000,00 euros), and of 1.234.567 the part up to the second
  point is read.
\<close>

theorem numberFrom_grouping_counterexample:
  "numberFrom (JStr (str ''25.000,00 '' @ [8364])) = Some (Fin 25)
   \<and> decimalValue (str ''25000'') (str ''00'') = 25000
   \<and> numberFrom (JStr (str ''1.234.567 EUR'')) = Some (toDouble (decimalValue (str ''1'') (str ''234'')))
   \<and> toDouble (decimalValue (str ''1'') (str ''234'')) \<noteq> Fin 1234567"
proof (intro conjI)
  show "numberFrom (JStr (str ''25.000,00 '' @ [8364])) = Some (Fin 25)"
    by (simp add: model_eval)
  show "decimalValue (str ''25000'') (str ''00'') = 25000"
    by (simp add: decimalValue_def number_eval)
  show "numberFrom (JStr (str ''1.234.567 EUR'')) = Some (toDouble (decimalValue (str ''1'') (str ''234'')))"
    by (simp add: decimalValue_def number_eval)
  show "toDouble (decimalValue (str ''1'') (str ''234'')) \<noteq> Fin 1234567"
    by (simp add: decimalValue_def number_eval)
qed

text \<open>
  C2, amended. Coercion of a text keeps its digits (code units 48 to 57) and points (46)
  and drops every other character. When what is left is digits only, or digits, a point and digits with nothing
  or a further point behind them (at least one digit in all), the result is the double
  nearest to the decimal that these digits and this one point denote, and \<^verbatim>\<open>null\<close> when
  that double is infinite; what follows a second point is not read. When no digit is left
  the result is \<^verbatim>\<open>null\<close>.
\<close>

theorem numberFrom_text:
  "stripNonNumeric s = filter (\<lambda>c. 48 \<le> c \<and> c \<le> 57 \<or> c = 46) s
   \<and> ((\<forall>c\<in>set ip. isDigit c) \<and> ip \<noteq> [] \<and> stripNonNumeric s = ip
        \<longrightarrow> numberFrom (JStr s) =
            (if isFinite (toDouble (decimalValue ip []))
             then Some (toDouble (decimalValue ip [])) else None))
   \<and> ((\<forall>c\<in>set ip. isDigit c) \<and> (\<forall>c\<in>set fp. isDigit c) \<and> ip @ fp \<noteq> [] \<and>
       (r = [] \<or> hd r = 46) \<and> stripNonNumeric s = ip @ 46 # fp @ r
        \<longrightarrow> numberFrom (JStr s) =
            (if isFinite (toDouble (decimalValue ip fp))
             then Some (toDouble (decimalValue ip fp)) else None))
   \<and> ((\<forall>c\<in>set s. \<not> isDigit c) \<longrightarrow> numberFrom (JStr s) = None)"
proof (intro conjI impI)
  show "stripNonNumeric s = filter (\<lambda>c. 48 \<le> c \<and> c \<le> 57 \<or> c = 46) s"
    unfolding stripNonNumeric_def
    by (rule filter_cong) (auto simp: in_ranges_def digit_ranges_def)
next
  assume "(\<forall>c\<in>set ip. isDigit c) \<and> ip \<noteq> [] \<and> stripNonNumeric s = ip"
  then show "numberFrom (JStr s) =
            (if isFinite (toDouble (decimalValue ip []))
             then Some (toDouble (decimalValue ip [])) else None)"
    using parseFloat_integer[of ip] by (simp add: Let_def)
next
  assume "(\<forall>c\<in>set ip. isDigit c) \<and> (\<forall>c\<in>set fp. isDigit c) \<and> ip @ fp \<noteq> [] \<and>
       (r = [] \<or> hd r = 46) \<and> stripNonNumeric s = ip @ 46 # fp @ r"
  then show "numberFrom (JStr s) =
            (if isFinite (toDouble (decimalValue ip fp))
             then Some (toDouble (decimalValue ip fp)) else None)"
    using parseFloat_decimal[of ip fp r] by (simp add: Let_def)
next
  assume "\<forall>c\<in>set s. \<not> isDigit c"
  then have "\<forall>c\<in>set (stripNonNumeric s). \<not> isDigit c"
    by (simp add: stripNonNumeric_filter)
  then show "numberFrom (JStr s) = None"
    using parseFloat_no_digit[of "stripNonNumeric s"] by (simp add: Let_def)
qed

theorem numberFrom_text_witness:
  "numberFrom (JStr (str ''650 km'')) = Some (Fin 650)
   \<and> numberFrom (JStr (str ''EUR 1,234.50'')) = Some (Fin (2469 / 2))
   \<and> numberFrom (JStr (str ''1.234.567 EUR'')) = Some (toDouble (617 / 500))
   \<and> numberFrom (JStr (str ''n/a'')) = None"
proof (intro conjI)
  have h1: "(\<forall>c\<in>set (str ''650''). isDigit c) \<and> str ''650'' \<noteq> [] \<and>
            stripNonNumeric (str ''650 km'') = str ''650''"
    by (simp add: str_def isDigit_def in_ranges_def digit_ranges_def stripNonNumeric_def)
  have v1: "toDouble (decimalValue (str ''650'') []) = Fin 650"
    by (simp add: decimalValue_def number_eval)
  show "numberFrom (JStr (str ''650 km'')) = Some (Fin 650)"
    using numberFrom_text[of "str ''650 km''" "str ''650''", THEN conjunct2, THEN conjunct1,
        THEN mp, OF h1]
    by (simp only: v1 isFinite.simps if_True)
  have h2: "(\<forall>c\<in>set (str ''1234''). isDigit c) \<and> (\<forall>c\<in>set (str ''50''). isDigit c) \<and>
            str ''1234'' @ str ''50'' \<noteq> [] \<and> ([] = [] \<or> hd [] = (46::nat)) \<and>
            stripNonNumeric (str ''EUR 1,234.50'') = str ''1234'' @ 46 # str ''50'' @ []"
    by (simp add: str_def isDigit_def in_ranges_def digit_ranges_def stripNonNumeric_def)
  have v2: "toDouble (decimalValue (str ''1234'') (str ''50'')) = Fin (2469 / 2)"
    by (simp add: decimalValue_def number_eval)
  show "numberFrom (JStr (str ''EUR 1,234.50'')) = Some (Fin (2469 / 2))"
    using numberFrom_text[of "str ''EUR 1,234.50''" "str ''1234''" "str ''50''" "[]",
        THEN conjunct2, THEN conjunct2, THEN conjunct1, THEN mp, OF h2]
    by (simp only: v2 isFinite.simps if_True)
  have h3: "(\<forall>c\<in>set (str ''1''). isDigit c) \<and> (\<forall>c\<in>set (str ''234''). isDigit c) \<and>
            str ''1'' @ str ''234'' \<noteq> [] \<and> (str ''.567'' = [] \<or> hd (str ''.567'') = (46::nat)) \<and>
            stripNonNumeric (str ''1.234.567 EUR'') = str ''1'' @ 46 # str ''234'' @ str ''.567''"
    by (simp add: str_def isDigit_def in_ranges_def digit_ranges_def stripNonNumeric_def)
  have v3: "decimalValue (str ''1'') (str ''234'') = 617 / 500"
    by (simp add: decimalValue_def number_eval)
  have f3: "isFinite (toDouble (617 / 500))"
    by (simp add: number_eval)
  show "numberFrom (JStr (str ''1.234.567 EUR'')) = Some (toDouble (617 / 500))"
    using numberFrom_text[of "str ''1.234.567 EUR''" "str ''1''" "str ''234''" "str ''.567''",
        THEN conjunct2, THEN conjunct2, THEN conjunct1, THEN mp, OF h3] f3
    by (simp only: v3 if_True)
  have h4: "\<forall>c\<in>set (str ''n/a''). \<not> isDigit c"
    by (simp add: str_def isDigit_def in_ranges_def digit_ranges_def)
  show "numberFrom (JStr (str ''n/a'')) = None"
    using numberFrom_text[of "str ''n/a''"] h4 by blast
qed

section \<open>The range estimated from the label\<close>

text \<open>A pattern that is one literal matches exactly the strings that contain it.\<close>

lemma rx_search_Lit:
  "w \<noteq> [] \<Longrightarrow> rx_search (Lit w) p s = (\<exists>a b. s = a @ w @ b)"
proof (induction s arbitrary: p)
  case Nil
  then show ?case by simp
next
  case (Cons c t)
  have "(\<exists>a b. c # t = a @ w @ b) = (prefix w (c # t) \<or> (\<exists>a b. t = a @ w @ b))"
    by (auto simp: prefix_def Cons_eq_append_conv)
  with Cons show ?case by simp
qed

lemma rx_performance_test:
  "rx_test rx_performance s = (\<exists>a b. s = a @ str ''performance'' @ b)"
  by (simp add: rx_test_def rx_performance_def rx_search_Lit str_def)

lemma ex_label_only_paths: "extractRangeKm_loop ex_label_only range_paths = None"
  by (simp add: range_paths_def ex_label_only_def str_def pick_def)

lemma ex_label_number_paths: "extractRangeKm_loop ex_label_number range_paths = None"
  by (simp add: range_paths_def ex_label_number_def str_def pick_def)

lemma ex_label_only_label: "trimLabel ex_label_only = JStr (str ''Model 3 Long Range AWD'')"
  by (simp add: trimLabel_def ex_label_only_def str_def js_or_def)

lemma long_range_label:
  "rx_test rx_long_range (toLowerCase exampleRuntime (str ''Model 3 Long Range AWD''))"
  by (simp add: exampleRuntime_def asciiLower_def rx_test_def rx_long_range_def
      is_word_before_def is_word_after_def model_eval)

text \<open>
  The claim C5 has the fall-back on the label in range extraction, and \<^verbatim>\<open>null\<close> rather than
  an exception at its end. The file \<^verbatim>\<open>src/unnamed/part_000\<close> has no fall-back: a record
  with a long-range label and no range field gets \<^verbatim>\<open>null\<close> there, and 620 in
  \<^verbatim>\<open>src/check.js\<close>. And in \<^verbatim>\<open>src/check.js\<close> a record whose label is the number 3 makes
  \<^verbatim>\<open>toLowerCase\<close> throw.
\<close>

theorem range_fallback_counterexample:
  "extractRangeKm_loop ex_label_only range_paths = None
   \<and> extractRangeKm exampleRuntime ex_label_only = Inr (Some (Fin 620))
   \<and> extractRangeKm_part_000 ex_label_only = None
   \<and> extractRangeKm_loop ex_label_number range_paths = None
   \<and> extractRangeKm exampleRuntime ex_label_number = Inl TypeError"
proof (intro conjI)
  show "extractRangeKm_loop ex_label_only range_paths = None"
    by (rule ex_label_only_paths)
  show "extractRangeKm exampleRuntime ex_label_only = Inr (Some (Fin 620))"
    by (simp add: extractRangeKm_def ex_label_only_paths ex_label_only_label long_range_label)
  show "extractRangeKm_part_000 ex_label_only = None"
    using ex_label_only_paths
    by (simp add: extractRangeKm_part_000_def extractRangeKm_loop_part_000_eq range_paths_def
        del: extractRangeKm_loop.simps)
  show "extractRangeKm_loop ex_label_number range_paths = None"
    by (rule ex_label_number_paths)
  show "extractRangeKm exampleRuntime ex_label_number = Inl TypeError"
    by (simp add: extractRangeKm_def ex_label_number_paths)
       (simp add: trimLabel_def ex_label_number_def str_def js_or_def)
qed

text \<open>
  C5, amended. Take a record on which all nine range candidates fail to coerce. When its
  label (the first truthy one of \<^verbatim>\<open>TrimName\<close>, \<^verbatim>\<open>Trim\<close>, \<^verbatim>\<open>SpecName\<close>, else the empty
  string) is a string, \<open>extractRangeKm\<close> of \<^verbatim>\<open>src/check.js\<close> returns 620 when the lower-cased
  label matches the long-range pattern, otherwise 560 when it matches the performance
  pattern, otherwise 490 when it matches the standard-range pattern, and otherwise
  \<^verbatim>\<open>null\<close>, without an exception. \<open>extractRangeKm\<close> of \<^verbatim>\<open>src/unnamed/part_000\<close> returns
  \<^verbatim>\<open>null\<close> on every such record.
\<close>

theorem range_fallback:
  "((\<forall>p\<in>set range_paths. numberFrom (pick item p) = None) \<and> trimLabel item = JStr s
      \<longrightarrow> extractRangeKm rt item =
          Inr (if rx_test rx_long_range (toLowerCase rt s) then Some (Fin 620)
               else if rx_test rx_performance (toLowerCase rt s) then Some (Fin 560)
               else if rx_test rx_standard_range (toLowerCase rt s) then Some (Fin 490)
               else None))
   \<and> ((\<forall>p\<in>set range_paths. numberFrom (pick item p) = None)
      \<longrightarrow> extractRangeKm_part_000 item = None)"
proof (intro conjI impI)
  assume a: "(\<forall>p\<in>set range_paths. numberFrom (pick item p) = None) \<and> trimLabel item = JStr s"
  then have "extractRangeKm_loop item range_paths = None"
    by (simp add: extractRangeKm_loop_None)
  with a show "extractRangeKm rt item =
          Inr (if rx_test rx_long_range (toLowerCase rt s) then Some (Fin 620)
               else if rx_test rx_performance (toLowerCase rt s) then Some (Fin 560)
               else if rx_test rx_standard_range (toLowerCase rt s) then Some (Fin 490)
               else None)"
    by (simp add: extractRangeKm_def Let_def)
next
  assume "\<forall>p\<in>set range_paths. numberFrom (pick item p) = None"
  then have "extractRangeKm_loop item range_paths = None"
    by (simp add: extractRangeKm_loop_None)
  then show "extractRangeKm_part_000 item = None"
    by (simp add: extractRangeKm_part_000_def extractRangeKm_loop_part_000_eq range_paths_def
        del: extractRangeKm_loop.simps)
qed

theorem range_fallback_witness:
  "extractRangeKm exampleRuntime ex_label_only = Inr (Some (Fin 620))
   \<and> extractRangeKm_part_000 ex_label_only = None
   \<and> extractRangeKm exampleRuntime ex_price_only = Inr None"
proof -
  have none: "\<forall>p\<in>set range_paths. numberFrom (pick ex_label_only p) = None"
    using ex_label_only_paths by (simp add: extractRangeKm_loop_None)
  have none': "\<forall>p\<in>set range_paths. numberFrom (pick ex_price_only p) = None"
    by (simp add: range_paths_def ex_price_only_def str_def pick_def)
  have label': "trimLabel ex_price_only = JStr []"
    by (simp add: trimLabel_def ex_price_only_def str_def js_or_def)
  have no_match:
    "\<not> rx_test rx_long_range (toLowerCase exampleRuntime [])"
    "\<not> rx_test rx_performance (toLowerCase exampleRuntime [])"
    "\<not> rx_test rx_standard_range (toLowerCase exampleRuntime [])"
    by (simp_all add: exampleRuntime_def asciiLower_def rx_test_def rx_long_range_def
        rx_performance_def rx_standard_range_def is_word_before_def is_word_after_def model_eval)
  show ?thesis
    using range_fallback[of ex_label_only "str ''Model 3 Long Range AWD''" exampleRuntime]
      range_fallback[of ex_price_only "[]" exampleRuntime]
      none none' ex_label_only_label label' long_range_label no_match
    by simp
qed

section \<open>The link: fall-back and site origin\<close>

lemma rx_search_Bol: "\<not> rx_search (Seq Bol r) (Some c) s"
  by (induction s arbitrary: c) simp_all

lemma rx_http_test:
  "rx_test rx_http h = (prefix (str ''http:'') h \<or> prefix (str ''https:'') h)"
proof (cases h)
  case Nil
  then show ?thesis by (simp add: rx_test_def rx_http_def str_def)
next
  case (Cons c t)
  have "rx_test rx_http h = (rx_ends rx_http (None, h) \<noteq> [])"
    using Cons rx_search_Bol by (simp add: rx_test_def rx_http_def)
  also have "\<dots> = (prefix (str ''http:'') h \<or> prefix (str ''https:'') h)"
    by (auto simp: rx_http_def str_def prefix_def)
  finally show ?thesis .
qed

lemma hrefOf_falsy:
  "\<forall>k\<in>set href_keys. \<not> truthy (getProp item k) \<Longrightarrow> \<not> truthy (hrefOf item)"
  by (simp add: href_keys_def hrefOf_def js_or_def)

lemma vinOf_falsy:
  "\<forall>k\<in>set vin_keys. \<not> truthy (getProp item k) \<Longrightarrow> vinOf item = JStr []"
  by (simp add: vin_keys_def vinOf_def js_or_def)

lemma hrefOf_first:
  assumes "href_keys = pre @ k # post"
    and "\<forall>k'\<in>set pre. \<not> truthy (getProp item k')"
    and "truthy (getProp item k)"
  shows "hrefOf item = getProp item k"
proof -
  from assms(1) consider
      "pre = []" "k = str ''PrcUrl''"
    | "pre = [str ''PrcUrl'']" "k = str ''PermaLink''"
    | "pre = [str ''PrcUrl'', str ''PermaLink'']" "k = str ''WebUrl''"
    | "pre = [str ''PrcUrl'', str ''PermaLink'', str ''WebUrl'']" "k = str ''permalink''"
    unfolding href_keys_def by (auto simp: Cons_eq_append_conv)
  then show ?thesis
    using assms(2,3) by cases (simp_all add: hrefOf_def js_or_def)
qed

text \<open>
  C6. A record on which none of the four link fields and none of the identifier fields
  (the source reads three: \<^verbatim>\<open>VIN\<close>, \<^verbatim>\<open>Vin\<close>, \<^verbatim>\<open>vin\<close>) holds a truthy value gets the
  referer URL followed by \<^verbatim>\<open>#result\<close>.
\<close>

theorem itemUrl_fallback:
  assumes "\<forall>k\<in>set href_keys. \<not> truthy (getProp item k)"
    and "\<forall>k\<in>set vin_keys. \<not> truthy (getProp item k)"
  shows "itemUrl rt item = Inr (JStr (REFERER_URL @ str ''#result''))"
  using hrefOf_falsy[OF assms(1)] vinOf_falsy[OF assms(2)]
  by (simp add: itemUrl_def js_or_def str_def)

theorem itemUrl_fallback_witness:
  "itemUrl exampleRuntime ex_price_only =
     Inr (JStr (str ''https://www.tesla.com/de_DE/inventory/used/m3?arrangeby=plh&range=0#result''))"
proof -
  have "\<forall>k\<in>set href_keys. \<not> truthy (getProp ex_price_only k)"
    and "\<forall>k\<in>set vin_keys. \<not> truthy (getProp ex_price_only k)"
    by (simp_all add: href_keys_def vin_keys_def ex_price_only_def str_def)
  then show ?thesis
    using itemUrl_fallback[of ex_price_only exampleRuntime] by (simp add: REFERER_URL_def str_def)
qed

text \<open>
  The claim C7 returns a link as it is whenever it starts with a URL scheme. The program
  tests for \<^verbatim>\<open>http:\<close> and \<^verbatim>\<open>https:\<close> only: a link with another scheme gets the site
  origin in front.
\<close>

theorem itemUrl_scheme_counterexample:
  "spec_starts_with_scheme (str ''ftp://example.com/m3'')
   \<and> itemUrl exampleRuntime ex_ftp_link =
       Inr (JStr (str ''https://www.tesla.comftp://example.com/m3''))"
proof (intro conjI)
  show "spec_starts_with_scheme (str ''ftp://example.com/m3'')"
    by (simp add: spec_starts_with_scheme_def spec_scheme_char_def str_def in_ranges_def)
  have "hrefOf ex_ftp_link = JStr (str ''ftp://example.com/m3'')"
    by (simp add: hrefOf_def ex_ftp_link_def js_or_def str_def)
  moreover have "\<not> rx_test rx_http (str ''ftp://example.com/m3'')"
    by (simp add: rx_http_test str_def)
  ultimately show "itemUrl exampleRuntime ex_ftp_link =
       Inr (JStr (str ''https://www.tesla.comftp://example.com/m3''))"
    by (simp add: itemUrl_def) (simp add: str_def)
qed

text \<open>
  C7, amended. When the first truthy one of the four link fields holds a string, the link
  is that string as it is if it starts with \<^verbatim>\<open>http:\<close> or \<^verbatim>\<open>https:\<close> (in lower case), and
  otherwise the site origin \<^verbatim>\<open>https://www.tesla.com\<close> followed by that string unchanged.
\<close>

theorem itemUrl_href:
  assumes "href_keys = pre @ k # post"
    and "\<forall>k'\<in>set pre. \<not> truthy (getProp item k')"
    and "getProp item k = JStr h" and "h \<noteq> []"
  shows "itemUrl rt item =
           Inr (JStr (if prefix (str ''http:'') h \<or> prefix (str ''https:'') h then h
                      else str ''https://www.tesla.com'' @ h))"
proof -
  have "hrefOf item = JStr h"
    using hrefOf_first[OF assms(1,2)] assms(3,4) by simp
  then show ?thesis
    using assms(4) by (simp add: itemUrl_def rx_http_test)
qed

theorem itemUrl_href_witness:
  "itemUrl exampleRuntime ex_listing =
     Inr (JStr (str ''https://www.tesla.com/de_DE/m3/order/5YJ3''))
   \<and> itemUrl exampleRuntime ex_absolute_link = Inr (JStr (str ''https://www.tesla.com/m3''))"
proof (intro conjI)
  have k1: "href_keys = [] @ str ''PrcUrl'' # tl href_keys"
    by (simp add: href_keys_def)
  have v1: "getProp ex_listing (str ''PrcUrl'') = JStr (str ''/de_DE/m3/order/5YJ3'')"
    by (simp add: ex_listing_def str_def)
  show "itemUrl exampleRuntime ex_listing =
     Inr (JStr (str ''https://www.tesla.com/de_DE/m3/order/5YJ3''))"
    using itemUrl_href[OF k1 _ v1, of exampleRuntime] by (simp add: str_def)
  have k2: "href_keys = [str ''PrcUrl'', str ''PermaLink''] @ str ''WebUrl'' # [str ''permalink'']"
    by (simp add: href_keys_def)
  have b2: "\<forall>k'\<in>set [str ''PrcUrl'', str ''PermaLink'']. \<not> truthy (getProp ex_absolute_link k')"
    by (simp add: ex_absolute_link_def str_def)
  have v2: "getProp ex_absolute_link (str ''WebUrl'') = JStr (str ''https://www.tesla.com/m3'')"
    by (simp add: ex_absolute_link_def str_def)
  show "itemUrl exampleRuntime ex_absolute_link = Inr (JStr (str ''https://www.tesla.com/m3''))"
    using itemUrl_href[OF k2 b2 v2, of exampleRuntime] by (simp add: str_def)
qed

section \<open>The odometer in the message\<close>

lemma odomOf_none:
  "\<forall>k\<in>set odometer_keys. nullish (getProp item k) \<Longrightarrow> odomOf item = None"
  by (cases "getProp item (str ''Km'')")
     (simp_all add: odometer_keys_def odomOf_def js_coalesce_def)

lemma odomOf_first:
  assumes "odometer_keys = pre @ k # post"
    and "\<forall>k'\<in>set pre. nullish (getProp item k')"
    and "\<not> nullish (getProp item k)"
  shows "odomOf item = numberFrom (getProp item k)"
proof -
  from assms(1) consider
      "pre = []" "k = str ''Odometer''"
    | "pre = [str ''Odometer'']" "k = str ''Mileage''"
    | "pre = [str ''Odometer'', str ''Mileage'']" "k = str ''Km''"
    unfolding odometer_keys_def by (auto simp: Cons_eq_append_conv)
  then show ?thesis
    using assms(2,3) by cases (simp_all add: odomOf_def js_coalesce_def)
qed

lemma truthy_num_iff: "truthy_num n = (n \<noteq> Fin 0 \<and> n \<noteq> NaN)"
  by (cases n) simp_all

text \<open>
  The claim C8 has the odometer in the second line exactly when one of the three fields is
  there and coerces to a number. An odometer of 0 is there and is a number, and the line
  has no odometer; and a first field that is there but is no number hides a second field
  that is one.
\<close>

theorem odometer_counterexample:
  "numberFrom (getProp ex_odometer_zero (str ''Odometer'')) = Some (Fin 0)
   \<and> odoTxt exampleRuntime ex_odometer_zero = []
   \<and> numberFrom (getProp ex_odometer_text (str ''Mileage'')) = Some (Fin 50000)
   \<and> odoTxt exampleRuntime ex_odometer_text = []
   \<and> line2 exampleRuntime ex_odometer_zero (Fin 25000) (Fin 650) =
       str ''25000 '' @ [8364] @ str '' '' @ bullet @ str '' Reichweite ~650 km''"
proof (intro conjI)
  show "numberFrom (getProp ex_odometer_zero (str ''Odometer'')) = Some (Fin 0)"
    by (simp add: ex_odometer_zero_def str_def)
  show z: "odoTxt exampleRuntime ex_odometer_zero = []"
    by (simp add: odoTxt_def odomOf_def ex_odometer_zero_def str_def js_coalesce_def)
  show "numberFrom (getProp ex_odometer_text (str ''Mileage'')) = Some (Fin 50000)"
    by (simp add: ex_odometer_text_def str_def)
  show "odoTxt exampleRuntime ex_odometer_text = []"
    by (simp add: odoTxt_def odomOf_def ex_odometer_text_def js_coalesce_def model_eval)
  have price: "fmtEUR exampleRuntime (Fin 25000) = str ''25000 '' @ [8364]"
    by (simp add: fmtEUR_def exampleRuntime_def decimalDigits.simps str_def)
  have shown: "numberToString exampleRuntime (mathRound (Fin 650)) = str ''650''"
    by (simp add: exampleRuntime_def decimalDigits.simps str_def floor_rat_divide_numeral)
  show "line2 exampleRuntime ex_odometer_zero (Fin 25000) (Fin 650) =
       str ''25000 '' @ [8364] @ str '' '' @ bullet @ str '' Reichweite ~650 km''"
    unfolding line2_def z price shown by (simp add: str_def)
qed

text \<open>
  C8, amended. The message is the first line, the second line and the link, with a line
  feed between them. The second line is the price, the bullet, the rounded range with its
  unit, and then the odometer segment or nothing. Of the three fields \<^verbatim>\<open>Odometer\<close>, \<^verbatim>\<open>Mileage\<close>,
  \<^verbatim>\<open>Km\<close> only the first that is neither \<^verbatim>\<open>null\<close> nor missing is coerced. The segment (the
  bullet, the rounded value and the unit) is there exactly when that field coerces to a
  number other than 0 and NaN; it is left out when the coercion gives \<^verbatim>\<open>null\<close>, 0 or NaN,
  and when all three fields are \<^verbatim>\<open>null\<close> or missing.
\<close>

theorem odometer_segment:
  "(summarize rt item price rangeKm = Inr msg
      \<longrightarrow> (\<exists>l1 u. line1 rt item = Inr l1 \<and>
                  msg = l1 @ [10] @ line2 rt item price rangeKm @ [10] @ u))
   \<and> line2 rt item price rangeKm =
     fmtEUR rt price @ str '' '' @ bullet @ str '' Reichweite ~''
       @ numberToString rt (mathRound rangeKm) @ str '' km'' @ odoTxt rt item
   \<and> ((\<forall>k\<in>set odometer_keys. nullish (getProp item k)) \<longrightarrow> odoTxt rt item = [])
   \<and> (odometer_keys = pre @ k # post \<and> (\<forall>k'\<in>set pre. nullish (getProp item k')) \<and>
       \<not> nullish (getProp item k)
       \<longrightarrow> odoTxt rt item =
           (case numberFrom (getProp item k) of
              None \<Rightarrow> []
            | Some n \<Rightarrow>
                if n = Fin 0 \<or> n = NaN then []
                else str '' '' @ bullet @ str '' '' @ numberToString rt (mathRound n) @ str '' km''))"
proof (intro conjI impI)
  assume "summarize rt item price rangeKm = Inr msg"
  then show "\<exists>l1 u. line1 rt item = Inr l1 \<and>
                  msg = l1 @ [10] @ line2 rt item price rangeKm @ [10] @ u"
    by (auto simp: summarize_def split: sum.splits)
next
  show "line2 rt item price rangeKm =
     fmtEUR rt price @ str '' '' @ bullet @ str '' Reichweite ~''
       @ numberToString rt (mathRound rangeKm) @ str '' km'' @ odoTxt rt item"
    by (simp add: line2_def)
next
  assume "\<forall>k\<in>set odometer_keys. nullish (getProp item k)"
  then show "odoTxt rt item = []"
    by (simp add: odoTxt_def odomOf_none)
next
  assume "odometer_keys = pre @ k # post \<and> (\<forall>k'\<in>set pre. nullish (getProp item k')) \<and>
       \<not> nullish (getProp item k)"
  then have "odomOf item = numberFrom (getProp item k)"
    using odomOf_first[of pre k post item] by simp
  then show "odoTxt rt item =
           (case numberFrom (getProp item k) of
              None \<Rightarrow> []
            | Some n \<Rightarrow>
                if n = Fin 0 \<or> n = NaN then []
                else str '' '' @ bullet @ str '' '' @ numberToString rt (mathRound n) @ str '' km'')"
    by (simp add: odoTxt_def truthy_num_iff split: option.splits)
qed

theorem odometer_segment_witness:
  "summarize exampleRuntime ex_listing (Fin 25000) (Fin 650) =
     Inr (car @ str '' Tesla Model 3 Long Range AWD'' @ [10]
          @ str ''25000 '' @ [8364] @ str '' '' @ bullet @ str '' Reichweite ~650 km ''
          @ bullet @ str '' 51235 km'' @ [10]
          @ str ''https://www.tesla.com/de_DE/m3/order/5YJ3'')
   \<and> (\<exists>l1 u. line1 exampleRuntime ex_listing = Inr l1 \<and>
        car @ str '' Tesla Model 3 Long Range AWD'' @ [10]
          @ str ''25000 '' @ [8364] @ str '' '' @ bullet @ str '' Reichweite ~650 km ''
          @ bullet @ str '' 51235 km'' @ [10]
          @ str ''https://www.tesla.com/de_DE/m3/order/5YJ3'' =
        l1 @ [10] @ line2 exampleRuntime ex_listing (Fin 25000) (Fin 650) @ [10] @ u)
   \<and> odoTxt exampleRuntime ex_listing = str '' '' @ bullet @ str '' 51235 km''
   \<and> odoTxt exampleRuntime ex_price_only = []
   \<and> odoTxt exampleRuntime ex_odometer_zero = []"
proof (intro conjI)
  have first: "line1 exampleRuntime ex_listing = Inr (car @ str '' Tesla Model 3 Long Range AWD'')"
    by (simp add: line1_def trimLabel_def ex_listing_def js_or_def js_trim_def car_def
        str_def in_ranges_def space_ranges_def)
  have link: "itemUrl exampleRuntime ex_listing =
      Inr (JStr (str ''https://www.tesla.com/de_DE/m3/order/5YJ3''))"
    by (simp add: itemUrl_def hrefOf_def ex_listing_def js_or_def rx_http_test str_def)
  have odo: "odomOf ex_listing = Some (Fin (102469 / 2))"
    by (simp add: odomOf_def ex_listing_def js_coalesce_def str_def)
  have second: "line2 exampleRuntime ex_listing (Fin 25000) (Fin 650) =
      str ''25000 '' @ [8364] @ str '' '' @ bullet @ str '' Reichweite ~650 km ''
          @ bullet @ str '' 51235 km''"
    by (simp add: line2_def odoTxt_def odo fmtEUR_def exampleRuntime_def decimalDigits.simps
        str_def floor_rat_divide_numeral)
  show msg: "summarize exampleRuntime ex_listing (Fin 25000) (Fin 650) =
     Inr (car @ str '' Tesla Model 3 Long Range AWD'' @ [10]
          @ str ''25000 '' @ [8364] @ str '' '' @ bullet @ str '' Reichweite ~650 km ''
          @ bullet @ str '' 51235 km'' @ [10]
          @ str ''https://www.tesla.com/de_DE/m3/order/5YJ3'')"
    by (simp add: summarize_def first link second)
  show "\<exists>l1 u. line1 exampleRuntime ex_listing = Inr l1 \<and>
        car @ str '' Tesla Model 3 Long Range AWD'' @ [10]
          @ str ''25000 '' @ [8364] @ str '' '' @ bullet @ str '' Reichweite ~650 km ''
          @ bullet @ str '' 51235 km'' @ [10]
          @ str ''https://www.tesla.com/de_DE/m3/order/5YJ3'' =
        l1 @ [10] @ line2 exampleRuntime ex_listing (Fin 25000) (Fin 650) @ [10] @ u"
    using odometer_segment[of exampleRuntime ex_listing "Fin 25000" "Fin 650", THEN conjunct1,
        THEN mp, OF msg] .
  have k1: "odometer_keys = [str ''Odometer''] @ str ''Mileage'' # [str ''Km''] \<and>
        (\<forall>k'\<in>set [str ''Odometer'']. nullish (getProp ex_listing k')) \<and>
        \<not> nullish (getProp ex_listing (str ''Mileage''))"
    by (simp add: odometer_keys_def ex_listing_def str_def)
  have v1: "numberFrom (getProp ex_listing (str ''Mileage'')) = Some (Fin (102469 / 2))"
    by (simp add: ex_listing_def str_def)
  have r1: "numberToString exampleRuntime (mathRound (Fin (102469 / 2))) = str ''51235''"
    by (simp add: exampleRuntime_def decimalDigits.simps str_def floor_rat_divide_numeral)
  show "odoTxt exampleRuntime ex_listing = str '' '' @ bullet @ str '' 51235 km''"
    using odometer_segment[of exampleRuntime ex_listing _ _ _ "[str ''Odometer'']" "str ''Mileage''"
        "[str ''Km'']", THEN conjunct2, THEN conjunct2, THEN conjunct2, THEN mp, OF k1, unfolded v1]
    by (simp add: r1 str_def del: mathRound.simps)
  have n2: "\<forall>k\<in>set odometer_keys. nullish (getProp ex_price_only k)"
    by (simp add: odometer_keys_def ex_price_only_def str_def)
  show "odoTxt exampleRuntime ex_price_only = []"
    using odometer_segment[of exampleRuntime ex_price_only, THEN conjunct2, THEN conjunct2,
        THEN conjunct1, THEN mp, OF n2] .
  have k3: "odometer_keys = [] @ str ''Odometer'' # [str ''Mileage'', str ''Km''] \<and>
        (\<forall>k'\<in>set []. nullish (getProp ex_odometer_zero k')) \<and>
        \<not> nullish (getProp ex_odometer_zero (str ''Odometer''))"
    by (simp add: odometer_keys_def ex_odometer_zero_def str_def)
  have v3: "numberFrom (getProp ex_odometer_zero (str ''Odometer'')) = Some (Fin 0)"
    by (simp add: ex_odometer_zero_def str_def)
  show "odoTxt exampleRuntime ex_odometer_zero = []"
    using odometer_segment[of exampleRuntime ex_odometer_zero _ _ _ "[]" "str ''Odometer''"
        "[str ''Mileage'', str ''Km'']", THEN conjunct2, THEN conjunct2, THEN conjunct2, THEN mp,
        OF k3, unfolded v3]
    by simp
qed

section \<open>The result list of a response\<close>

text \<open>
  C9. The result list is the list under \<^verbatim>\<open>results\<close> when the body has one there, the list
  under \<^verbatim>\<open>Results\<close> when the body has no \<^verbatim>\<open>results\<close> and a list there, and the empty list
  when the body has neither key. \<open>resultsOf\<close> has no failing case: the optional chain and
  \<^verbatim>\<open>||\<close> do not throw.
\<close>

theorem resultsOf_cases:
  "(getProp data (str ''results'') = JArr xs \<longrightarrow> resultsOf data = JArr xs)
   \<and> (getProp data (str ''results'') = JUndefined \<and> getProp data (str ''Results'') = JArr xs
        \<longrightarrow> resultsOf data = JArr xs)
   \<and> (getProp data (str ''results'') = JUndefined \<and> getProp data (str ''Results'') = JUndefined
        \<longrightarrow> resultsOf data = JArr [])"
  by (simp add: resultsOf_def js_or_def)

theorem resultsOf_cases_witness:
  "resultsOf ex_response_lower = JArr [ex_listing]
   \<and> resultsOf ex_response_upper = JArr [ex_listing, ex_odometer_zero]
   \<and> resultsOf ex_response_empty = JArr []
   \<and> resultsOf JNull = JArr []"
proof (intro conjI)
  have "getProp ex_response_lower (str ''results'') = JArr [ex_listing]"
    by (simp add: ex_response_lower_def str_def)
  then show "resultsOf ex_response_lower = JArr [ex_listing]"
    using resultsOf_cases[of ex_response_lower "[ex_listing]"] by blast
  have "getProp ex_response_upper (str ''results'') = JUndefined \<and>
        getProp ex_response_upper (str ''Results'') = JArr [ex_listing, ex_odometer_zero]"
    by (simp add: ex_response_upper_def str_def)
  then show "resultsOf ex_response_upper = JArr [ex_listing, ex_odometer_zero]"
    using resultsOf_cases[of ex_response_upper "[ex_listing, ex_odometer_zero]"] by blast
  have "getProp ex_response_empty (str ''results'') = JUndefined \<and>
        getProp ex_response_empty (str ''Results'') = JUndefined"
    by (simp add: ex_response_empty_def str_def)
  then show "resultsOf ex_response_empty = JArr []"
    using resultsOf_cases[of ex_response_empty] by blast
  show "resultsOf JNull = JArr []"
    using resultsOf_cases[of JNull] by simp
qed

end
